theory Spec2Isabelle
  imports Complex_Main "HOL-Library.Sublist"
begin

section \<open>Allure trend analysis (trend-analysis.py): data model\<close>

text \<open>
  Conventions of the embedding.
  \<^item> A Python \<open>datetime\<close> is naive and counts microseconds; it is modelled as the number
    of microseconds since 0001-01-01T00:00:00, an \<open>int\<close> in the range
    \<open>0 .. DATETIME_MAX\<close>. Arithmetic that leaves the range raises \<open>OverflowError\<close>.
  \<^item> A Python \<open>float\<close> is an IEEE-754 double, modelled as the \<open>real\<close> it denotes;
    \<open>fl\<close> rounds a real to the nearest double. The quotient of the result parser,
    \<open>statistics.mean\<close> and the product of the regression test are rounded as the code
    rounds them. The sums and quotients of the build aggregator, of the history importer
    and of flaky detection, and the sums and the quotient of \<open>_analyze_trend\<close>, are
    written in exact arithmetic: the code rounds them too, and its result can differ from
    the exact one where a comparison is decided by the last bits.
  \<^item> A \<open>str\<close> is a \<open>string\<close> of 8-bit characters; \<open>str.lower\<close> maps the ASCII
    capitals and leaves every other character as it is.
  \<^item> A \<open>dict\<close>, \<open>defaultdict\<close> or \<open>Counter\<close> that the code iterates over is an
    association list in insertion order of its keys.
  \<^item> Every exception the source can raise is a value of \<open>py_error\<close>; a function that can
    raise returns \<open>py_error + 'a\<close>.
\<close>

type_synonym datetime = int

datatype py_error =
  OverflowError | StatisticsError | ValueError | KeyError | AttributeError | TypeError

text \<open>Sequencing of calls that may raise.\<close>

definition then_do :: "py_error + 'a \<Rightarrow> ('a \<Rightarrow> py_error + 'b) \<Rightarrow> py_error + 'b" where
  "then_do r f = (case r of Inl e \<Rightarrow> Inl e | Inr v \<Rightarrow> f v)"

record TestResult =
  name :: string
  status :: string
  duration :: real
  timestamp :: datetime
  build_number :: string
  branch :: string
  framework :: string
  error_message :: "string option"
  category :: "string option"

record BuildSummary =
  bs_build_number :: string
  bs_timestamp :: datetime
  bs_branch :: string
  bs_framework :: string
  total_tests :: int
  passed_tests :: int
  failed_tests :: int
  skipped_tests :: int
  broken_tests :: int
  bs_duration :: real
  pass_rate :: real

record TrendMetrics =
  average_pass_rate :: real
  pass_rate_trend :: string
  average_duration :: real
  duration_trend :: string
  total_builds :: nat
  flaky_tests :: "string list"
  most_failed_tests :: "(string \<times> nat) list"
  failure_categories :: "(string \<times> nat) list"
  performance_regressions :: "string list"

text \<open>The state of a \<open>TrendAnalyzer\<close> object.\<close>

record TrendAnalyzer =
  project_name :: string
  self_framework :: string
  test_results :: "TestResult list"
  build_summaries :: "BuildSummary list"

section \<open>Strings\<close>

text \<open>\<open>str.lower()\<close> on 8-bit characters.\<close>

definition lower_char :: "char \<Rightarrow> char" where
  "lower_char c =
     (case map_of (zip ''ABCDEFGHIJKLMNOPQRSTUVWXYZ'' ''abcdefghijklmnopqrstuvwxyz'') c of
        None \<Rightarrow> c
      | Some l \<Rightarrow> l)"

definition lower :: "string \<Rightarrow> string" where
  "lower s = map lower_char s"

text \<open>\<open>s.startswith(k)\<close> and the substring test \<open>k in s\<close>.\<close>

fun startswith :: "string \<Rightarrow> string \<Rightarrow> bool" where
  "startswith s [] = True"
| "startswith [] (k # ks) = False"
| "startswith (c # cs) (k # ks) = (c = k \<and> startswith cs ks)"

fun py_in :: "string \<Rightarrow> string \<Rightarrow> bool" where
  "py_in k [] = (k = [])"
| "py_in k (c # cs) = (startswith (c # cs) k \<or> py_in k cs)"

text \<open>\<open>any(keyword in text for keyword in keywords)\<close>.\<close>

definition any_keyword_in :: "string list \<Rightarrow> string \<Rightarrow> bool" where
  "any_keyword_in keywords s = list_ex (\<lambda>keyword. py_in keyword s) keywords"

section \<open>The failure classifier\<close>

text \<open>
  \<open>_categorize_test(name, status, error_message)\<close>. The test \<open>not error_message\<close>
  holds for \<open>None\<close> and for the empty string.
\<close>

definition categorize_test :: "string \<Rightarrow> string \<Rightarrow> string option \<Rightarrow> string" where
  "categorize_test nm st err =
     (if st = ''passed'' then ''passed''
      else case err of
        None \<Rightarrow> ''unknown_failure''
      | Some msg \<Rightarrow>
          if msg = [] then ''unknown_failure''
          else let error_lower = lower msg in
            if any_keyword_in [''assertion'', ''expect'', ''should''] error_lower
              then ''product_defect''
            else if any_keyword_in
                [''typeerror'', ''referenceerror'', ''syntaxerror'', ''importerror''] error_lower
              then ''test_defect''
            else if any_keyword_in [''timeout'', ''connection'', ''network'', ''server''] error_lower
              then ''infrastructure''
            else if any_keyword_in [''performance'', ''slow'', ''memory''] error_lower
              then ''performance''
            else ''other_failure'')"

text \<open>
  The reference definition of the specification: an ordered table of keyword rules,
  searched case-insensitively, the first matching rule giving the category.
\<close>

definition keyword_rules :: "(string list \<times> string) list" where
  "keyword_rules =
     [([''assertion'', ''expect'', ''should''], ''product_defect''),
      ([''typeerror'', ''referenceerror'', ''syntaxerror'', ''importerror''], ''test_defect''),
      ([''timeout'', ''connection'', ''network'', ''server''], ''infrastructure''),
      ([''performance'', ''slow'', ''memory''], ''performance'')]"

text \<open>
  Case-insensitive containment: the keyword occurs as a contiguous part of the text once
  both are put in lower case.
\<close>

definition contains_ci :: "string \<Rightarrow> string \<Rightarrow> bool" where
  "contains_ci s keyword = sublist (lower keyword) (lower s)"

definition rule_matches :: "string \<Rightarrow> string list \<times> string \<Rightarrow> bool" where
  "rule_matches s rule = (\<exists>keyword \<in> set (fst rule). contains_ci s keyword)"

definition classify :: "string \<Rightarrow> string option \<Rightarrow> string" where
  "classify st err =
     (if st = ''passed'' then ''passed''
      else case err of
        None \<Rightarrow> ''unknown_failure''
      | Some [] \<Rightarrow> ''unknown_failure''
      | Some msg \<Rightarrow>
          (case find (rule_matches msg) keyword_rules of
             Some rule \<Rightarrow> snd rule
           | None \<Rightarrow> ''other_failure''))"

section \<open>Datetime arithmetic\<close>

definition US_PER_DAY :: int where
  "US_PER_DAY = 86400000000"

text \<open>\<open>datetime.max\<close> is 9999-12-31T23:59:59.999999, day 3652059 of the calendar.\<close>

definition DATETIME_MAX :: int where
  "DATETIME_MAX = 3652059 * US_PER_DAY - 1"

text \<open>\<open>timedelta.max.days\<close>.\<close>

definition MAX_DELTA_DAYS :: int where
  "MAX_DELTA_DAYS = 999999999"

definition valid_datetime :: "datetime \<Rightarrow> bool" where
  "valid_datetime t = (0 \<le> t \<and> t \<le> DATETIME_MAX)"

text \<open>
  \<open>cutoff_date = datetime.datetime.now() - datetime.timedelta(days=days_back)\<close>: the
  constructor of \<open>timedelta\<close> and the subtraction both raise \<open>OverflowError\<close> outside
  their ranges.
\<close>

definition cutoff_date :: "datetime \<Rightarrow> int \<Rightarrow> py_error + datetime" where
  "cutoff_date now days_back =
     (if days_back < - MAX_DELTA_DAYS \<or> MAX_DELTA_DAYS < days_back then Inl OverflowError
      else let c = now - days_back * US_PER_DAY in
        if c < 0 \<or> DATETIME_MAX < c then Inl OverflowError else Inr c)"

text \<open>
  \<open>datetime.fromtimestamp\<close> is the platform's conversion of epoch seconds to local
  time; the functions below take it as a parameter (\<open>None\<close> when it raises). This is
  the conversion of a platform whose local time is UTC, to the nearest microsecond:
  1970-01-01 is day 719162 after 0001-01-01. The inputs below are whole milliseconds.
\<close>

definition utc_fromtimestamp :: "real \<Rightarrow> datetime option" where
  "utc_fromtimestamp secs =
     (let t = 719162 * US_PER_DAY + \<lfloor>secs * 1000000 + 1 / 2\<rfloor>
      in if valid_datetime t then Some t else None)"

section \<open>Floating-point numbers\<close>

text \<open>Rounding to the nearest integer, a tie going to the even one.\<close>

definition round_half_even :: "real \<Rightarrow> int" where
  "round_half_even x =
     (let f = \<lfloor>x\<rfloor>; r = x - of_int f
      in if r < 1 / 2 then f else if 1 / 2 < r then f + 1 else if even f then f else f + 1)"

text \<open>
  The doubles around \<open>x\<close> are the multiples of \<open>2 powi ulp_exponent x\<close>: they have 53
  significant bits from \<open>2 powi - 1022\<close> on and are the multiples of \<open>2 powi - 1074\<close>
  below. \<open>fl x\<close> is the double nearest to \<open>x\<close>, a tie going to the even multiple. The
  exponent has no upper bound here: where the code's result overflows, \<open>fl\<close> gives a
  value beyond the largest double.
\<close>

definition ulp_exponent :: "real \<Rightarrow> int" where
  "ulp_exponent x = max (\<lfloor>log 2 \<bar>x\<bar>\<rfloor> - 52) (- 1074)"

definition fl :: "real \<Rightarrow> real" where
  "fl x =
     (if x = 0 then 0
      else of_int (round_half_even (x / 2 powi ulp_exponent x)) * 2 powi ulp_exponent x)"

text \<open>The largest double, \<open>sys.float_info.max\<close>.\<close>

definition DBL_MAX :: real where
  "DBL_MAX = (2 ^ 53 - 1) * 2 ^ 971"

text \<open>
  The conversion of an \<open>int\<close> operand of a float operation: the nearest double, and
  \<open>OverflowError\<close> (int too large to convert to float) when that is beyond the largest
  one.
\<close>

definition int_to_float :: "int \<Rightarrow> py_error + real" where
  "int_to_float n =
     (if \<bar>fl (of_int n)\<bar> > DBL_MAX then Inl OverflowError else Inr (fl (of_int n)))"

text \<open>\<open>n / 1000.0\<close> for an \<open>int\<close> \<open>n\<close>.\<close>

definition ms_to_seconds :: "int \<Rightarrow> py_error + real" where
  "ms_to_seconds n = then_do (int_to_float n) (\<lambda>x. Inr (fl (x / 1000)))"

section \<open>The result parser\<close>

text \<open>
  A key of a JSON object that the parser reads: absent, \<open>null\<close>, or present with a
  value of the type that the result format gives it.
\<close>

datatype 'a json_field = Absent | JsonNull | Present 'a

text \<open>One entry of the \<open>labels\<close> array: an object that may lack either of its keys.\<close>

record RawLabel =
  label_name :: "string option"
  label_value :: "string option"

text \<open>
  One raw record of the test framework, as \<open>json.load\<close> gives it. \<open>fullName\<close> and
  \<open>name\<close> are absent or strings; \<open>raw_statusDetails\<close> is \<open>Present None\<close> for a
  \<open>statusDetails\<close> object without a \<open>message\<close>.
\<close>

record RawResult =
  raw_fullName :: "string option"
  raw_name :: "string option"
  raw_status :: "string json_field"
  raw_start :: "int json_field"
  raw_stop :: "int json_field"
  raw_labels :: "RawLabel list json_field"
  raw_statusDetails :: "string option json_field"

text \<open>\<open>d.get(key, default)\<close> on an optional field.\<close>

definition get_or :: "'a option \<Rightarrow> 'a \<Rightarrow> 'a" where
  "get_or field dflt = (case field of None \<Rightarrow> dflt | Some v \<Rightarrow> v)"

text \<open>
  \<open>data.get('status', 'unknown').lower()\<close>: \<open>None\<close> has no method \<open>lower\<close>.
\<close>

definition status_lower :: "string json_field \<Rightarrow> py_error + string" where
  "status_lower f =
     (case f of
        Absent \<Rightarrow> Inr (lower ''unknown'')
      | JsonNull \<Rightarrow> Inl AttributeError
      | Present s \<Rightarrow> Inr (lower s))"

text \<open>
  \<open>data.get(key, 0)\<close> for \<open>start\<close> and \<open>stop\<close>, \<open>None\<close> being Python's \<open>None\<close>, and
  the difference \<open>stop_time - start_time\<close>, which raises \<open>TypeError\<close> when one of the
  two is \<open>None\<close>.
\<close>

definition get_int :: "int json_field \<Rightarrow> int option" where
  "get_int f = (case f of Absent \<Rightarrow> Some 0 | JsonNull \<Rightarrow> None | Present n \<Rightarrow> Some n)"

definition subtract_times :: "int option \<Rightarrow> int option \<Rightarrow> py_error + int" where
  "subtract_times stop_time start_time =
     (case stop_time of
        None \<Rightarrow> Inl TypeError
      | Some b \<Rightarrow> (case start_time of None \<Rightarrow> Inl TypeError | Some a \<Rightarrow> Inr (b - a)))"

text \<open>
  \<open>datetime.datetime.fromtimestamp(start_time / 1000.0) if start_time else
  datetime.datetime.now()\<close>. Whatever the conversion raises is caught by the parser; it
  is recorded as \<open>ValueError\<close>.
\<close>

definition convert_timestamp ::
  "(real \<Rightarrow> datetime option) \<Rightarrow> datetime \<Rightarrow> int option \<Rightarrow> py_error + datetime" where
  "convert_timestamp fromtimestamp now start_time =
     (case start_time of
        None \<Rightarrow> Inr now
      | Some a \<Rightarrow>
          if a \<noteq> 0 then
            then_do (ms_to_seconds a) (\<lambda>secs.
              case fromtimestamp secs of None \<Rightarrow> Inl ValueError | Some t \<Rightarrow> Inr t)
          else Inr now)"

text \<open>
  \<open>labels = {label['name']: label['value'] for label in data.get('labels', [])}\<close>:
  \<open>None\<close> is not iterable, and a label without one of the two keys raises
  \<open>KeyError\<close>. The pairs are kept in the order of the array.
\<close>

fun label_pairs :: "RawLabel list \<Rightarrow> py_error + (string \<times> string) list" where
  "label_pairs [] = Inr []"
| "label_pairs (l # ls) =
     (case label_name l of
        None \<Rightarrow> Inl KeyError
      | Some n \<Rightarrow>
          (case label_value l of
             None \<Rightarrow> Inl KeyError
           | Some v \<Rightarrow> then_do (label_pairs ls) (\<lambda>ps. Inr ((n, v) # ps))))"

definition read_labels :: "RawLabel list json_field \<Rightarrow> py_error + (string \<times> string) list" where
  "read_labels f =
     (case f of Absent \<Rightarrow> Inr [] | JsonNull \<Rightarrow> Inl TypeError | Present ls \<Rightarrow> label_pairs ls)"

text \<open>
  \<open>labels.get(key, default)\<close> on the dictionary of the pairs: of two labels with one
  name the later one stays.
\<close>

definition labels_get :: "(string \<times> string) list \<Rightarrow> string \<Rightarrow> string \<Rightarrow> string" where
  "labels_get labels key dflt = get_or (map_of (rev labels) key) dflt"

text \<open>
  The error message: \<open>'statusDetails' in data and 'message' in data['statusDetails']\<close>
  raises \<open>TypeError\<close> when \<open>statusDetails\<close> is \<open>null\<close>.
\<close>

definition read_error_message :: "string option json_field \<Rightarrow> py_error + string option" where
  "read_error_message f =
     (case f of Absent \<Rightarrow> Inr None | JsonNull \<Rightarrow> Inl TypeError | Present m \<Rightarrow> Inr m)"

text \<open>
  The body of the \<open>try\<close> block of \<open>_parse_test_result(self, data)\<close>, in the order of
  its statements, with \<open>self.framework\<close>, the platform's \<open>fromtimestamp\<close> (\<open>None\<close>
  when it raises) and the reading of the clock as parameters.
\<close>

definition parse_test_result_try ::
  "string \<Rightarrow> (real \<Rightarrow> datetime option) \<Rightarrow> datetime \<Rightarrow> RawResult \<Rightarrow> py_error + TestResult" where
  "parse_test_result_try fw fromtimestamp now data =
     (let nm = get_or (raw_fullName data) (get_or (raw_name data) ''Unknown'') in
      then_do (status_lower (raw_status data)) (\<lambda>st.
      let start_time = get_int (raw_start data);
          stop_time = get_int (raw_stop data) in
      then_do (then_do (subtract_times stop_time start_time) ms_to_seconds) (\<lambda>dur.
      then_do (convert_timestamp fromtimestamp now start_time) (\<lambda>ts.
      then_do (read_labels (raw_labels data)) (\<lambda>labels.
      let bn = labels_get labels ''build'' ''unknown'';
          br = labels_get labels ''branch'' ''unknown'';
          fwk = labels_get labels ''framework'' fw in
      then_do (read_error_message (raw_statusDetails data)) (\<lambda>err.
      let cat = categorize_test nm st err in
      Inr \<lparr>name = nm, status = st, duration = dur, timestamp = ts,
            build_number = bn, branch = br, framework = fwk,
            error_message = err, category = Some cat\<rparr>))))))"

text \<open>
  \<open>_parse_test_result(self, data)\<close>: \<open>except Exception\<close> turns every exception of the
  body into the result \<open>None\<close>.
\<close>

definition parse_test_result ::
  "string \<Rightarrow> (real \<Rightarrow> datetime option) \<Rightarrow> datetime \<Rightarrow> RawResult \<Rightarrow> TestResult option" where
  "parse_test_result fw fromtimestamp now data =
     (case parse_test_result_try fw fromtimestamp now data of
        Inl e \<Rightarrow> None
      | Inr r \<Rightarrow> Some r)"

section \<open>The build aggregator\<close>

text \<open>
  \<open>d[key].append(v)\<close> on a \<open>defaultdict(list)\<close>: a new key goes to the end of the
  dictionary, a known key keeps its place.
\<close>

fun group_append :: "'k \<Rightarrow> 'v \<Rightarrow> ('k \<times> 'v list) list \<Rightarrow> ('k \<times> 'v list) list" where
  "group_append k v [] = [(k, [v])]"
| "group_append k v ((k', vs) # rest) =
     (if k' = k then (k', vs @ [v]) # rest else (k', vs) # group_append k v rest)"

definition group_by :: "('a \<Rightarrow> 'k) \<Rightarrow> ('a \<Rightarrow> 'v) \<Rightarrow> 'a list \<Rightarrow> ('k \<times> 'v list) list" where
  "group_by keyf valf xs = foldl (\<lambda>d x. group_append (keyf x) (valf x) d) [] xs"

text \<open>\<open>sum(1 for r in results if r.status == s)\<close>.\<close>

definition count_status :: "string \<Rightarrow> TestResult list \<Rightarrow> int" where
  "count_status s results = int (length (filter (\<lambda>r. status r = s) results))"

text \<open>
  The body of the loop over \<open>builds.items()\<close> in \<open>_load_build_summaries\<close>: \<open>None\<close> is
  the \<open>continue\<close> for an empty group.
\<close>

fun summarize_build :: "string \<times> TestResult list \<Rightarrow> BuildSummary option" where
  "summarize_build (bn, []) = None"
| "summarize_build (bn, r # rs) =
     (let results = r # rs;
          total = int (length results);
          passed = count_status ''passed'' results;
          failed = count_status ''failed'' results;
          skipped = count_status ''skipped'' results;
          broken = count_status ''broken'' results;
          total_duration = sum_list (map duration results);
          rate = (if total > 0 then real_of_int passed / real_of_int total * 100 else 0);
          ts = foldl max (timestamp r) (map timestamp rs)
      in Some \<lparr>bs_build_number = bn, bs_timestamp = ts, bs_branch = branch r,
                bs_framework = framework r, total_tests = total, passed_tests = passed,
                failed_tests = failed, skipped_tests = skipped, broken_tests = broken,
                bs_duration = total_duration, pass_rate = rate\<rparr>)"

text \<open>The summaries the aggregator appends, in the order of the builds' first results.\<close>

definition aggregate_builds :: "TestResult list \<Rightarrow> BuildSummary list" where
  "aggregate_builds results =
     List.map_filter summarize_build (group_by build_number (\<lambda>r. r) results)"

text \<open>
  \<open>_load_build_summaries\<close>: the files \<open>executor.json\<close> and
  \<open>environment.properties\<close> only fill a local dictionary that is never read. The final
  \<open>sort\<close> is stable, as \<open>sort_key\<close> is.
\<close>

definition load_build_summaries :: "TrendAnalyzer \<Rightarrow> TrendAnalyzer" where
  "load_build_summaries self =
     self\<lparr>build_summaries :=
       sort_key bs_timestamp (build_summaries self @ aggregate_builds (test_results self))\<rparr>"

text \<open>
  \<open>load_results_from_directory\<close> for an existing directory whose result files hold
  the records \<open>raws\<close>, in the order of the directory listing.
\<close>

definition load_results_from_directory ::
  "(real \<Rightarrow> datetime option) \<Rightarrow> datetime \<Rightarrow> RawResult list \<Rightarrow> TrendAnalyzer \<Rightarrow> TrendAnalyzer" where
  "load_results_from_directory fromtimestamp now raws self =
     load_build_summaries
       (self\<lparr>test_results := test_results self
          @ List.map_filter (parse_test_result (self_framework self) fromtimestamp now) raws\<rparr>)"

section \<open>The history importer\<close>

text \<open>
  One entry of \<open>history.json\<close>. \<open>buildOrder\<close> holds the text \<open>str\<close> gives for the
  entry's build ordinal.
\<close>

record HistoryTime =
  ht_start :: "int option"
  ht_duration :: "int option"

record HistoryStatistic =
  hs_total :: "int option"
  hs_passed :: "int option"
  hs_failed :: "int option"
  hs_skipped :: "int option"
  hs_broken :: "int option"

record HistoryEntry =
  buildOrder :: "string option"
  he_time :: "HistoryTime option"
  he_statistic :: "HistoryStatistic option"

text \<open>\<open>build_data.get(obj, {}).get(key, 0)\<close>.\<close>

definition nested_get :: "'o option \<Rightarrow> ('o \<Rightarrow> int option) \<Rightarrow> int" where
  "nested_get obj field = (case obj of None \<Rightarrow> 0 | Some ob \<Rightarrow> get_or (field ob) 0)"

text \<open>
  The body of the loop of \<open>_parse_history_data\<close>: \<open>None\<close> where the source catches
  an exception and goes on with the next entry.
\<close>

definition parse_history_entry ::
  "string \<Rightarrow> (real \<Rightarrow> datetime option) \<Rightarrow> datetime \<Rightarrow> HistoryEntry \<Rightarrow> BuildSummary option" where
  "parse_history_entry fw fromtimestamp now build_data =
     (let bn = get_or (buildOrder build_data) ''unknown'';
          timestamp_ms = nested_get (he_time build_data) ht_start
      in case (if timestamp_ms \<noteq> 0 then fromtimestamp (real_of_int timestamp_ms / 1000)
               else Some now) of
           None \<Rightarrow> None
         | Some ts \<Rightarrow>
             let total = nested_get (he_statistic build_data) hs_total;
                 passed = nested_get (he_statistic build_data) hs_passed;
                 failed = nested_get (he_statistic build_data) hs_failed;
                 skipped = nested_get (he_statistic build_data) hs_skipped;
                 broken = nested_get (he_statistic build_data) hs_broken;
                 dur = real_of_int (nested_get (he_time build_data) ht_duration) / 1000;
                 rate = (if total > 0 then real_of_int passed / real_of_int total * 100 else 0)
             in Some \<lparr>bs_build_number = bn, bs_timestamp = ts, bs_branch = ''unknown'',
                       bs_framework = fw, total_tests = total, passed_tests = passed,
                       failed_tests = failed, skipped_tests = skipped, broken_tests = broken,
                       bs_duration = dur, pass_rate = rate\<rparr>)"

definition parse_history_data ::
  "(real \<Rightarrow> datetime option) \<Rightarrow> datetime \<Rightarrow> HistoryEntry list \<Rightarrow> TrendAnalyzer \<Rightarrow> TrendAnalyzer" where
  "parse_history_data fromtimestamp now history_data self =
     self\<lparr>build_summaries := build_summaries self
       @ List.map_filter (parse_history_entry (self_framework self) fromtimestamp now)
           history_data\<rparr>"

section \<open>The trend engine\<close>

text \<open>
  \<open>statistics.mean\<close> raises \<open>StatisticsError\<close> on an empty list; otherwise it adds
  the values as exact fractions and returns the double nearest to the exact mean.
\<close>

definition py_mean :: "real list \<Rightarrow> py_error + real" where
  "py_mean xs =
     (if xs = [] then Inl StatisticsError else Inr (fl (sum_list xs / real (length xs))))"

text \<open>\<open>min\<close> of a list of counts: raises \<open>ValueError\<close> on an empty list.\<close>

fun py_min :: "nat list \<Rightarrow> py_error + nat" where
  "py_min [] = Inl ValueError"
| "py_min (x # xs) = Inr (foldl min x xs)"

text \<open>
  The two sums of \<open>_analyze_trend\<close>, over \<open>range(n)\<close> with \<open>x_mean = (n - 1) / 2\<close>.
\<close>

definition trend_numerator :: "real list \<Rightarrow> real \<Rightarrow> real" where
  "trend_numerator values y_mean =
     (let n = length values; x_mean = (real n - 1) / 2
      in (\<Sum>i\<leftarrow>[0..<n]. (real i - x_mean) * (values ! i - y_mean)))"

definition trend_denominator :: "nat \<Rightarrow> real" where
  "trend_denominator n =
     (let x_mean = (real n - 1) / 2 in (\<Sum>i\<leftarrow>[0..<n]. (real i - x_mean) ^ 2))"

text \<open>
  \<open>_analyze_trend(self, values, reverse)\<close>. The two sums, the quotient and the
  threshold \<open>0.1\<close> are written in exact arithmetic.
\<close>

definition analyze_trend :: "real list \<Rightarrow> bool \<Rightarrow> py_error + string" where
  "analyze_trend values reverse =
     (if length values < 3 then Inr ''unknown''
      else then_do (py_mean values) (\<lambda>y_mean.
        let numerator = trend_numerator values y_mean;
            denominator = trend_denominator (length values)
        in if denominator = 0 then Inr ''stable''
           else let slope = numerator / denominator;
                    threshold = 1 / 10;
                    slope' = (if reverse then - slope else slope)
                in if slope' > threshold then Inr ''improving''
                   else if slope' < - threshold then Inr ''declining''
                   else Inr ''stable''))"

text \<open>
  \<open>Counter(xs)\<close>: the distinct elements in the order of their first occurrence, each
  with the number of its occurrences.
\<close>

definition counter :: "'a list \<Rightarrow> ('a \<times> nat) list" where
  "counter xs = map (\<lambda>(k, vs). (k, length vs)) (group_by (\<lambda>x. x) (\<lambda>x. x) xs)"

text \<open>
  The test of one entry in the loop of \<open>_identify_flaky_tests\<close>: \<open>len(set(statuses))\<close>
  is the number of distinct statuses.
\<close>

definition is_flaky :: "string list \<Rightarrow> py_error + bool" where
  "is_flaky statuses =
     (if length (remdups statuses) > 1 \<and> length statuses \<ge> 3 then
        then_do (py_min (map snd (counter statuses))) (\<lambda>minority_count.
          let flakiness_ratio = real minority_count / real (length statuses)
          in Inr (flakiness_ratio \<ge> 2 / 10))
      else Inr False)"

text \<open>
  A loop \<open>for key, vals in d.items(): if test(vals): out.append(key)\<close> whose test may
  raise.
\<close>

fun select_keys :: "('v list \<Rightarrow> py_error + bool) \<Rightarrow> (string \<times> 'v list) list \<Rightarrow> py_error + string list" where
  "select_keys test [] = Inr []"
| "select_keys test ((k, vals) # rest) =
     (case test vals of
        Inl e \<Rightarrow> Inl e
      | Inr b \<Rightarrow>
          (case select_keys test rest of
             Inl e \<Rightarrow> Inl e
           | Inr ks \<Rightarrow> Inr (if b then k # ks else ks)))"

definition identify_flaky_tests :: "datetime \<Rightarrow> int \<Rightarrow> TestResult list \<Rightarrow> py_error + string list" where
  "identify_flaky_tests now days_back results =
     then_do (cutoff_date now days_back) (\<lambda>cutoff.
       let recent_results = filter (\<lambda>r. timestamp r \<ge> cutoff) results
       in then_do (select_keys is_flaky (group_by name status recent_results)) (\<lambda>flaky.
            Inr (take 10 flaky)))"

text \<open>
  \<open>Counter.most_common(10)\<close>: by falling count, elements of one count in the order
  of their first occurrence.
\<close>

definition most_common :: "nat \<Rightarrow> ('a \<times> nat) list \<Rightarrow> ('a \<times> nat) list" where
  "most_common k counts = take k (sort_key (\<lambda>(x, c). - int c) counts)"

definition identify_most_failed_tests ::
  "datetime \<Rightarrow> int \<Rightarrow> TestResult list \<Rightarrow> py_error + (string \<times> nat) list" where
  "identify_most_failed_tests now days_back results =
     then_do (cutoff_date now days_back) (\<lambda>cutoff.
       let recent_results =
             filter (\<lambda>r. timestamp r \<ge> cutoff \<and> status r = ''failed'') results
       in Inr (most_common 10 (counter (map name recent_results))))"

text \<open>
  \<open>_analyze_failure_categories\<close>: the filter \<open>if result.category\<close> drops \<open>None\<close>
  and the empty string.
\<close>

definition analyze_failure_categories ::
  "datetime \<Rightarrow> int \<Rightarrow> TestResult list \<Rightarrow> py_error + (string \<times> nat) list" where
  "analyze_failure_categories now days_back results =
     then_do (cutoff_date now days_back) (\<lambda>cutoff.
       let recent_results =
             filter (\<lambda>r. timestamp r \<ge> cutoff \<and> status r = ''failed'') results
       in Inr (counter (concat (map (\<lambda>r. case category r of
                                          None \<Rightarrow> []
                                        | Some c \<Rightarrow> (if c = [] then [] else [c]))
                                    recent_results))))"

text \<open>
  The test of one entry in the loop of \<open>_identify_performance_regressions\<close>. The
  product \<open>early_avg * 1.5\<close> is rounded; where it overflows to \<open>inf\<close> in the code,
  \<open>fl\<close> gives a value beyond every double, and the comparison with the double
  \<open>recent_avg\<close> has the same outcome.
\<close>

definition is_regression :: "(datetime \<times> real) list \<Rightarrow> py_error + bool" where
  "is_regression duration_data =
     (if length duration_data < 5 then Inr False
      else let durations = map snd (sort_key fst duration_data);
               mid_point = length durations div 2
           in then_do (py_mean (take mid_point durations)) (\<lambda>early_avg.
              then_do (py_mean (drop mid_point durations)) (\<lambda>recent_avg.
                Inr (recent_avg > fl (early_avg * (15 / 10)) \<and> recent_avg > 1))))"

definition identify_performance_regressions ::
  "datetime \<Rightarrow> int \<Rightarrow> TestResult list \<Rightarrow> py_error + string list" where
  "identify_performance_regressions now days_back results =
     then_do (cutoff_date now days_back) (\<lambda>cutoff.
       let recent_results = filter (\<lambda>r. timestamp r \<ge> cutoff) results
       in then_do (select_keys is_regression
                     (group_by name (\<lambda>r. (timestamp r, duration r)) recent_results))
            (\<lambda>regressions. Inr (take 10 regressions)))"

text \<open>
  The five readings of \<open>datetime.now()\<close> during one call of \<open>analyze_trends\<close>: its
  own and one in each of the four sub-analyses.
\<close>

record Clock =
  now_builds :: datetime
  now_flaky :: datetime
  now_failed :: datetime
  now_categories :: datetime
  now_regressions :: datetime

definition zeroed_metrics :: TrendMetrics where
  "zeroed_metrics =
     \<lparr>average_pass_rate = 0, pass_rate_trend = ''unknown'', average_duration = 0,
      duration_trend = ''unknown'', total_builds = 0, flaky_tests = [],
      most_failed_tests = [], failure_categories = [], performance_regressions = []\<rparr>"

text \<open>\<open>analyze_trends(self, days_back)\<close>.\<close>

definition analyze_trends :: "Clock \<Rightarrow> int \<Rightarrow> TrendAnalyzer \<Rightarrow> py_error + TrendMetrics" where
  "analyze_trends clock days_back self =
     (if build_summaries self = [] then Inr zeroed_metrics
      else
        then_do (cutoff_date (now_builds clock) days_back) (\<lambda>cutoff.
        let recent_builds = filter (\<lambda>b. bs_timestamp b \<ge> cutoff) (build_summaries self)
        in if recent_builds = [] then Inr zeroed_metrics
        else
          let pass_rates = map pass_rate recent_builds;
              durations = map bs_duration recent_builds
          in
          then_do (if pass_rates \<noteq> [] then py_mean pass_rates else Inr 0) (\<lambda>avg_pass_rate.
          then_do (if durations \<noteq> [] then py_mean durations else Inr 0) (\<lambda>avg_duration.
          then_do (analyze_trend pass_rates False) (\<lambda>pr_trend.
          then_do (analyze_trend durations True) (\<lambda>dur_trend.
          then_do (identify_flaky_tests (now_flaky clock) days_back (test_results self))
            (\<lambda>flaky.
          then_do (identify_most_failed_tests (now_failed clock) days_back (test_results self))
            (\<lambda>most_failed.
          then_do (analyze_failure_categories (now_categories clock) days_back
                     (test_results self)) (\<lambda>categories.
          then_do (identify_performance_regressions (now_regressions clock) days_back
                     (test_results self)) (\<lambda>regressions.
          Inr \<lparr>average_pass_rate = avg_pass_rate, pass_rate_trend = pr_trend,
                average_duration = avg_duration, duration_trend = dur_trend,
                total_builds = length recent_builds, flaky_tests = flaky,
                most_failed_tests = most_failed, failure_categories = categories,
                performance_regressions = regressions\<rparr>))))))))))"

section \<open>Notions used to state the claims\<close>

text \<open>The distinct elements of a list in the order of their first occurrence.\<close>

fun first_seen :: "'a list \<Rightarrow> 'a list" where
  "first_seen [] = []"
| "first_seen (x # xs) = x # filter (\<lambda>y. y \<noteq> x) (first_seen xs)"

text \<open>The arithmetic mean, as a total function.\<close>

definition mean :: "real list \<Rightarrow> real" where
  "mean xs = sum_list xs / real (length xs)"


text \<open>
  The number of occurrences of the least frequent and of the most frequent element of a
  list.
\<close>

definition least_frequent_count :: "'a list \<Rightarrow> nat" where
  "least_frequent_count xs = Min (set (map (count_list xs) xs))"

definition most_frequent_count :: "'a list \<Rightarrow> nat" where
  "most_frequent_count xs = Max (set (map (count_list xs) xs))"

text \<open>
  Flakiness of the statuses of one test, with the minority fraction read as the share of
  the least frequent status.
\<close>

definition flaky_by_least_frequent :: "string list \<Rightarrow> bool" where
  "flaky_by_least_frequent statuses =
     (3 \<le> length statuses \<and> 1 < card (set statuses)
      \<and> real (least_frequent_count statuses) / real (length statuses) \<ge> 2 / 10)"

text \<open>
  Flakiness with the minority fraction read as the share of the runs that disagree with
  the majority outcome.
\<close>

definition flaky_by_majority :: "string list \<Rightarrow> bool" where
  "flaky_by_majority statuses =
     (3 \<le> length statuses \<and> 1 < card (set statuses)
      \<and> real (length statuses - most_frequent_count statuses) / real (length statuses)
          \<ge> 2 / 10)"

text \<open>
  Regression of the \<open>(timestamp, duration)\<close> points of one test, as the code computes
  it: at least five points and, in chronological order and split at the midpoint, a mean
  of the recent half above 1.5 times the mean of the early half and above one second,
  each mean and the product rounded to the nearest double.
\<close>

definition regressed :: "(datetime \<times> real) list \<Rightarrow> bool" where
  "regressed points =
     (5 \<le> length points
      \<and> (let durations = map snd (sort_key fst points);
              early = fl (mean (take (length durations div 2) durations));
              recent = fl (mean (drop (length durations div 2) durations))
          in recent > fl (early * (15 / 10)) \<and> recent > 1))"

text \<open>
  Regression with the comparison read on the exact means, without any rounding.
\<close>

definition regressed_exact :: "(datetime \<times> real) list \<Rightarrow> bool" where
  "regressed_exact points =
     (5 \<le> length points
      \<and> (let durations = map snd (sort_key fst points);
              early = mean (take (length durations div 2) durations);
              recent = mean (drop (length durations div 2) durations)
          in recent > early * (15 / 10) \<and> recent > 1))"

section \<open>Concrete inputs\<close>

text \<open>
  One result record without a \<open>status\<close> key, as the only record of build 42; the parser
  gives it the status \<open>unknown\<close>.
\<close>

definition raw_no_status :: RawResult where
  "raw_no_status =
     \<lparr>raw_fullName = Some ''suite.test_a'', raw_name = None, raw_status = Absent,
      raw_start = Present 1700000000000, raw_stop = Present 1700000001000,
      raw_labels = Present [\<lparr>label_name = Some ''build'', label_value = Some ''42''\<rparr>],
      raw_statusDetails = Absent\<rparr>"

definition results_no_status :: "TestResult list" where
  "results_no_status =
     List.map_filter (parse_test_result ''auto'' utc_fromtimestamp 0) [raw_no_status]"

definition summary_no_status :: BuildSummary where
  "summary_no_status =
     \<lparr>bs_build_number = ''42'', bs_timestamp = 63835596800000000, bs_branch = ''unknown'',
      bs_framework = ''auto'', total_tests = 1, passed_tests = 0, failed_tests = 0,
      skipped_tests = 0, broken_tests = 0, bs_duration = 1, pass_rate = 0\<rparr>"

text \<open>A history entry whose statistic counts five tests, one passed and one failed.\<close>

definition history_inconsistent :: HistoryEntry where
  "history_inconsistent =
     \<lparr>buildOrder = Some ''7'',
      he_time = Some \<lparr>ht_start = Some 1700000000000, ht_duration = Some 2000\<rparr>,
      he_statistic = Some \<lparr>hs_total = Some 5, hs_passed = Some 1, hs_failed = Some 1,
                            hs_skipped = None, hs_broken = None\<rparr>\<rparr>"

definition summary_history_inconsistent :: BuildSummary where
  "summary_history_inconsistent =
     \<lparr>bs_build_number = ''7'', bs_timestamp = 63835596800000000, bs_branch = ''unknown'',
      bs_framework = ''auto'', total_tests = 5, passed_tests = 1, failed_tests = 1,
      skipped_tests = 0, broken_tests = 0, bs_duration = 2, pass_rate = 20\<rparr>"

text \<open>A record whose \<open>stop\<close> lies one second before its \<open>start\<close>.\<close>

definition raw_stop_before_start :: RawResult where
  "raw_stop_before_start =
     \<lparr>raw_fullName = Some ''suite.test_b'', raw_name = None, raw_status = Present ''passed'',
      raw_start = Present 1700000001000, raw_stop = Present 1700000000000,
      raw_labels = Present [\<lparr>label_name = Some ''build'', label_value = Some ''42''\<rparr>],
      raw_statusDetails = Absent\<rparr>"

text \<open>
  An analyzer holding the one build of \<open>results_no_status\<close> (14 November 2023), and
  five readings of a clock about two years later.
\<close>

definition clock_later :: Clock where
  "clock_later =
     \<lparr>now_builds = 63900000000000000, now_flaky = 63900000000000001,
      now_failed = 63900000000000002, now_categories = 63900000000000003,
      now_regressions = 63900000000000004\<rparr>"

definition analyzer_old_build :: TrendAnalyzer where
  "analyzer_old_build =
     \<lparr>project_name = ''demo'', self_framework = ''auto'',
      test_results = results_no_status, build_summaries = [summary_no_status]\<rparr>"

text \<open>
  Test results inside the 30-day window of \<open>clock_later\<close>: a result with the given name,
  status, timestamp and duration.
\<close>

definition run :: "string \<Rightarrow> string \<Rightarrow> datetime \<Rightarrow> real \<Rightarrow> TestResult" where
  "run nm st ts dur =
     \<lparr>name = nm, status = st, duration = dur, timestamp = ts, build_number = ''1'',
      branch = ''main'', framework = ''pytest'', error_message = None,
      category = Some (categorize_test nm st None)\<rparr>"

definition runs_flaky :: "TestResult list" where
  "runs_flaky =
     [run ''test_login'' ''passed'' 63899568000000000 1,
      run ''test_cart'' ''passed'' 63899568000000000 1,
      run ''test_login'' ''failed'' 63899568001000000 1,
      run ''test_cart'' ''passed'' 63899568001000000 1,
      run ''test_login'' ''passed'' 63899568002000000 1,
      run ''test_cart'' ''passed'' 63899568002000000 1,
      run ''test_login'' ''passed'' 63899568003000000 1,
      run ''test_cart'' ''passed'' 63899568003000000 1,
      run ''test_login'' ''passed'' 63899568004000000 1,
      run ''test_cart'' ''passed'' 63899568004000000 1,
      run ''test_cart'' ''failed'' 63899568005000000 1]"

definition runs_three_statuses :: "TestResult list" where
  "runs_three_statuses =
     [run ''test_sync'' ''passed'' 63899568000000000 1,
      run ''test_sync'' ''failed'' 63899568001000000 1,
      run ''test_sync'' ''passed'' 63899568002000000 1,
      run ''test_sync'' ''broken'' 63899568003000000 1,
      run ''test_sync'' ''failed'' 63899568004000000 1,
      run ''test_sync'' ''passed'' 63899568005000000 1]"

text \<open>
  Six runs each of two tests, with the durations 0.5 s and 1.0 s in the early half and
  the doubles \<open>0.9\<close> and \<open>1.8\<close> in the recent half.
\<close>

definition runs_durations :: "TestResult list" where
  "runs_durations =
     [run ''test_fast'' ''passed'' 63899568003000000 (fl (9 / 10)),
      run ''test_slow'' ''passed'' 63899568003000000 (fl (9 / 5)),
      run ''test_fast'' ''passed'' 63899568000000000 (1 / 2),
      run ''test_slow'' ''passed'' 63899568000000000 1,
      run ''test_fast'' ''passed'' 63899568001000000 (1 / 2),
      run ''test_slow'' ''passed'' 63899568001000000 1,
      run ''test_fast'' ''passed'' 63899568002000000 (1 / 2),
      run ''test_slow'' ''passed'' 63899568002000000 1,
      run ''test_fast'' ''passed'' 63899568004000000 (fl (9 / 10)),
      run ''test_slow'' ''passed'' 63899568004000000 (fl (9 / 5)),
      run ''test_fast'' ''passed'' 63899568005000000 (fl (9 / 10)),
      run ''test_slow'' ''passed'' 63899568005000000 (fl (9 / 5))]"

text \<open>
  Ten runs of one test in chronological order, with durations of one and two seconds:
  the early five have the exact mean 1.2, the recent five the exact mean 1.8, which is
  1.5 times 1.2.
\<close>

definition runs_boundary :: "TestResult list" where
  "runs_boundary =
     [run ''test_io'' ''passed'' 63899568000000000 1,
      run ''test_io'' ''passed'' 63899568001000000 1,
      run ''test_io'' ''passed'' 63899568002000000 1,
      run ''test_io'' ''passed'' 63899568003000000 1,
      run ''test_io'' ''passed'' 63899568004000000 2,
      run ''test_io'' ''passed'' 63899568005000000 1,
      run ''test_io'' ''passed'' 63899568006000000 2,
      run ''test_io'' ''passed'' 63899568007000000 2,
      run ''test_io'' ''passed'' 63899568008000000 2,
      run ''test_io'' ''passed'' 63899568009000000 2]"

section \<open>The loading order of the command-line tool\<close>

text \<open>
  The loading steps of \<open>main()\<close>: a fresh analyzer, then \<open>load_results_from_directory\<close>,
  then \<open>load_history_from_directory\<close>, which hands the entries of \<open>history.json\<close> to
  \<open>_parse_history_data\<close>.
\<close>

definition main_load ::
  "(real \<Rightarrow> datetime option) \<Rightarrow> datetime \<Rightarrow> string \<Rightarrow> string \<Rightarrow> RawResult list
     \<Rightarrow> HistoryEntry list \<Rightarrow> TrendAnalyzer" where
  "main_load fromtimestamp now project fw raws history_data =
     parse_history_data fromtimestamp now history_data
       (load_results_from_directory fromtimestamp now raws
          \<lparr>project_name = project, self_framework = fw, test_results = [],
           build_summaries = []\<rparr>)"

text \<open>A history entry of 22 July 2023, earlier than the build of \<open>raw_no_status\<close>.\<close>

definition history_earlier :: HistoryEntry where
  "history_earlier =
     \<lparr>buildOrder = Some ''7'',
      he_time = Some \<lparr>ht_start = Some 1690000000000, ht_duration = Some 2000\<rparr>,
      he_statistic = Some \<lparr>hs_total = Some 5, hs_passed = Some 5, hs_failed = Some 0,
                            hs_skipped = Some 0, hs_broken = Some 0\<rparr>\<rparr>"

section \<open>Facts about strings\<close>

lemma startswith_prefix: "startswith s k = prefix k s"
  by (induction s k rule: startswith.induct) auto

lemma py_in_sublist: "py_in k s = sublist k s"
  by (induction s) (auto simp: startswith_prefix sublist_Cons_right)

lemma any_keyword_in_iff:
  "any_keyword_in ks s = (\<exists>k \<in> set ks. sublist k s)"
  by (simp add: any_keyword_in_def list_ex_iff py_in_sublist)

lemma lower_keyword_table:
  "lower ''assertion'' = ''assertion''" "lower ''expect'' = ''expect''"
  "lower ''should'' = ''should''" "lower ''typeerror'' = ''typeerror''"
  "lower ''referenceerror'' = ''referenceerror''" "lower ''syntaxerror'' = ''syntaxerror''"
  "lower ''importerror'' = ''importerror''" "lower ''timeout'' = ''timeout''"
  "lower ''connection'' = ''connection''" "lower ''network'' = ''network''"
  "lower ''server'' = ''server''" "lower ''performance'' = ''performance''"
  "lower ''slow'' = ''slow''" "lower ''memory'' = ''memory''"
  by (simp_all add: lower_def lower_char_def)

lemma rule_matches_keywords:
  "rule_matches s (ks, c) = (\<exists>k \<in> set ks. sublist (lower k) (lower s))"
  by (simp add: rule_matches_def contains_ci_def)

lemma categorize_test_eq_classify: "categorize_test nm st err = classify st err"
proof (cases "st = ''passed''")
  case True
  then show ?thesis by (simp add: categorize_test_def classify_def)
next
  case False
  show ?thesis
  proof (cases err)
    case None
    with False show ?thesis by (simp add: categorize_test_def classify_def)
  next
    case (Some msg)
    show ?thesis
    proof (cases msg)
      case Nil
      with False Some show ?thesis by (simp add: categorize_test_def classify_def)
    next
      case (Cons c cs)
      with False Some show ?thesis
        by (simp add: categorize_test_def classify_def keyword_rules_def Let_def
            any_keyword_in_iff rule_matches_keywords lower_keyword_table)
    qed
  qed
qed

lemma both_keywords_product_defect:
  assumes "st \<noteq> ''passed''"
    and "\<exists>k \<in> set [''assertion'', ''expect'', ''should'']. contains_ci msg k"
  shows "categorize_test nm st (Some msg) = ''product_defect''"
proof -
  from assms(2) have ne: "msg \<noteq> []"
    by (auto simp: contains_ci_def lower_keyword_table lower_def)
  from assms(2) have "any_keyword_in [''assertion'', ''expect'', ''should''] (lower msg)"
    by (simp add: any_keyword_in_iff contains_ci_def lower_keyword_table)
  with assms(1) ne show ?thesis
    by (simp add: categorize_test_def Let_def)
qed

lemma categorize_test_taxonomy:
  "categorize_test nm st err \<in> set [''passed'', ''product_defect'', ''test_defect'',
      ''infrastructure'', ''performance'', ''unknown_failure'', ''other_failure'']"
  by (simp add: categorize_test_def Let_def split: option.split)

lemma categorize_test_passed_iff:
  "categorize_test nm st err = ''passed'' \<longleftrightarrow> st = ''passed''"
  by (simp add: categorize_test_def Let_def split: option.split)

section \<open>Claims about the failure classifier\<close>

text \<open>
  Claim C2. The classifier \<open>_categorize_test\<close> is a total function into the fixed
  taxonomy and equals the reference definition \<open>classify\<close> of the specification (rules
  tried in order, first match wins, case-insensitive substring search; \<open>passed\<close> for a
  passed status whatever the error text; \<open>unknown_failure\<close> without error text). For a
  status other than \<open>passed\<close>, an error text holding both an assertion keyword and an
  infrastructure keyword is classified \<open>product_defect\<close>; and the category is \<open>passed\<close>
  exactly when the status is \<open>passed\<close>.
\<close>

theorem classifier_equals_reference:
  "categorize_test nm st err = classify st err
   \<and> categorize_test nm st err \<in> set [''passed'', ''product_defect'', ''test_defect'',
        ''infrastructure'', ''performance'', ''unknown_failure'', ''other_failure'']
   \<and> (st \<noteq> ''passed''
        \<and> (\<exists>k \<in> set [''assertion'', ''expect'', ''should'']. contains_ci msg k)
        \<and> (\<exists>k \<in> set [''timeout'', ''connection'', ''network'', ''server'']. contains_ci msg k)
      \<longrightarrow> categorize_test nm st (Some msg) = ''product_defect'')
   \<and> (categorize_test nm st err = ''passed'' \<longleftrightarrow> st = ''passed'')"
proof (intro conjI impI)
  show "categorize_test nm st err = classify st err"
    by (rule categorize_test_eq_classify)
  show "categorize_test nm st err \<in> set [''passed'', ''product_defect'', ''test_defect'',
        ''infrastructure'', ''performance'', ''unknown_failure'', ''other_failure'']"
    by (rule categorize_test_taxonomy)
  show "categorize_test nm st err = ''passed'' \<longleftrightarrow> st = ''passed''"
    by (rule categorize_test_passed_iff)
next
  assume "st \<noteq> ''passed''
        \<and> (\<exists>k \<in> set [''assertion'', ''expect'', ''should'']. contains_ci msg k)
        \<and> (\<exists>k \<in> set [''timeout'', ''connection'', ''network'', ''server'']. contains_ci msg k)"
  then have "st \<noteq> ''passed''"
    and "\<exists>k \<in> set [''assertion'', ''expect'', ''should'']. contains_ci msg k"
    by (rule conjunct1, rule conjunct2 [THEN conjunct1])
  then show "categorize_test nm st (Some msg) = ''product_defect''"
    by (rule both_keywords_product_defect)
qed

theorem classifier_equals_reference_witness:
  "''failed'' \<noteq> ''passed''
   \<and> contains_ci ''AssertionError: Connection Timeout'' ''assertion''
   \<and> contains_ci ''AssertionError: Connection Timeout'' ''timeout''
   \<and> categorize_test ''test_login'' ''failed'' (Some ''AssertionError: Connection Timeout'')
       = ''product_defect''
   \<and> classify ''failed'' (Some ''AssertionError: Connection Timeout'') = ''product_defect''"
proof -
  have a: "contains_ci ''AssertionError: Connection Timeout'' ''assertion''"
    by (simp add: contains_ci_def lower_def lower_char_def py_in_sublist[symmetric])
  have t: "contains_ci ''AssertionError: Connection Timeout'' ''timeout''"
    by (simp add: contains_ci_def lower_def lower_char_def py_in_sublist[symmetric])
  have n: "''failed'' \<noteq> ''passed''"
    by simp
  note th = classifier_equals_reference
    [of "''test_login''" "''failed''" "Some ''AssertionError: Connection Timeout''"
        "''AssertionError: Connection Timeout''"]
  have h1: "\<exists>k \<in> set [''assertion'', ''expect'', ''should''].
      contains_ci ''AssertionError: Connection Timeout'' k"
    using a by (intro bexI [of _ "''assertion''"]) simp_all
  have h2: "\<exists>k \<in> set [''timeout'', ''connection'', ''network'', ''server''].
      contains_ci ''AssertionError: Connection Timeout'' k"
    using t by (intro bexI [of _ "''timeout''"]) simp_all
  have c: "categorize_test ''test_login'' ''failed'' (Some ''AssertionError: Connection Timeout'')
          = ''product_defect''"
    by (rule th [THEN conjunct2, THEN conjunct2, THEN conjunct1, THEN mp,
          OF conjI [OF n conjI [OF h1 h2]]])
  have d: "classify ''failed'' (Some ''AssertionError: Connection Timeout'') = ''product_defect''"
    by (rule trans [OF th [THEN conjunct1, symmetric] c])
  show ?thesis
    by (intro conjI) (fact n a t c d)+
qed

section \<open>Facts about floating-point numbers\<close>

lemma floor_log2_eq:
  assumes "2 powi e \<le> \<bar>x\<bar>" "\<bar>x\<bar> < 2 powi (e + 1)"
  shows "\<lfloor>log 2 \<bar>x\<bar>\<rfloor> = e"
proof -
  have "0 < (2::real) powi e" by simp
  with assms(1) have pos: "0 < \<bar>x\<bar>" by linarith
  have "2 powr real_of_int e \<le> \<bar>x\<bar> \<and> \<bar>x\<bar> < 2 powr (real_of_int e + 1)"
    using assms powr_real_of_int' [of 2 e] powr_real_of_int' [of 2 "e + 1"] by simp
  then show ?thesis
    using floor_log_eq_powr_iff [of "\<bar>x\<bar>" 2 e] pos by simp
qed

lemma ulp_exponent_eq:
  assumes "2 powi e \<le> \<bar>x\<bar>" "\<bar>x\<bar> < 2 powi (e + 1)" "- 1022 \<le> e"
  shows "ulp_exponent x = e - 52"
  using floor_log2_eq [OF assms(1,2)] assms(3) by (simp add: ulp_exponent_def)

lemma fl_eval:
  assumes "2 powi e \<le> \<bar>x\<bar>" "\<bar>x\<bar> < 2 powi (e + 1)" "- 1022 \<le> e"
  shows "fl x = of_int (round_half_even (x / 2 powi (e - 52))) * 2 powi (e - 52)"
proof -
  have "0 < (2::real) powi e" by simp
  with assms(1) have "0 < \<bar>x\<bar>" by linarith
  then have "x \<noteq> 0" by simp
  then show ?thesis
    by (simp add: fl_def ulp_exponent_eq [OF assms])
qed

lemma round_half_even_of_int: "round_half_even (of_int n) = n"
  by (simp add: round_half_even_def)

lemma round_half_even_minus: "round_half_even (- x) = - round_half_even x"
proof (cases "x \<in> \<int>")
  case True
  then obtain n where "x = of_int n" by (auto elim: Ints_cases)
  then show ?thesis
    using round_half_even_of_int [of n] round_half_even_of_int [of "- n"] by simp
next
  case False
  then have ne: "x \<noteq> of_int \<lfloor>x\<rfloor>"
    by (metis Ints_of_int)
  then have fl: "\<lfloor>- x\<rfloor> = - \<lfloor>x\<rfloor> - 1"
    by (simp add: floor_minus ceiling_altdef)
  have odd: "even (- \<lfloor>x\<rfloor> - 1) \<longleftrightarrow> \<not> even \<lfloor>x\<rfloor>"
    by simp
  show ?thesis
    unfolding round_half_even_def Let_def fl odd
    by (auto simp: algebra_simps)
qed

lemma round_half_even_ge:
  assumes "of_int n \<le> x"
  shows "n \<le> round_half_even x"
proof -
  have "n \<le> \<lfloor>x\<rfloor>"
    using assms by (simp add: le_floor_iff)
  then show ?thesis
    unfolding round_half_even_def Let_def by simp
qed

lemma ulp_exponent_minus: "ulp_exponent (- x) = ulp_exponent x"
  by (simp add: ulp_exponent_def)

lemma fl_minus: "fl (- x) = - fl x"
  by (simp add: fl_def ulp_exponent_minus round_half_even_minus)

lemma fl_zero: "fl 0 = 0"
  by (simp add: fl_def)

lemma fl_ge_power:
  assumes "2 powi e \<le> x" "- 1022 \<le> e"
  shows "2 powi e \<le> fl x"
proof -
  have "0 < (2::real) powi e" by simp
  with assms(1) have pos: "0 < x" by linarith
  define k where "k = \<lfloor>log 2 x\<rfloor>"
  have "2 powr real_of_int k \<le> x \<and> x < 2 powr (real_of_int k + 1)"
    using floor_log_eq_powr_iff [of x 2 k] pos by (simp add: k_def)
  then have k: "2 powi k \<le> x" "x < 2 powi (k + 1)"
    using powr_real_of_int' [of 2 k] powr_real_of_int' [of 2 "k + 1"] by simp_all
  have "(2::real) powi e < 2 powi (k + 1)"
    using assms(1) k(2) by simp
  have ek: "e \<le> k"
  proof (rule ccontr)
    assume "\<not> e \<le> k"
    then have "k + 1 \<le> e" by simp
    then have "(2::real) powi (k + 1) \<le> 2 powi e"
      by (intro power_int_increasing) simp_all
    with \<open>(2::real) powi e < 2 powi (k + 1)\<close> show False by simp
  qed
  have bounds: "2 powi k \<le> \<bar>x\<bar>" "\<bar>x\<bar> < 2 powi (k + 1)" "- 1022 \<le> k"
    using k pos ek assms(2) by simp_all
  have "(2::real) powi k = 2 ^ 52 * 2 powi (k - 52)"
    using power_int_add [of "2::real" 52 "k - 52"] by simp
  then have "of_int (2 ^ 52) \<le> x / 2 powi (k - 52)"
    using k(1) by (simp add: pos_le_divide_eq)
  then have "2 ^ 52 \<le> round_half_even (x / 2 powi (k - 52))"
    by (rule round_half_even_ge)
  then have "(2::real) ^ 52 \<le> of_int (round_half_even (x / 2 powi (k - 52)))"
    by (metis of_int_le_iff of_int_numeral of_int_power)
  then have "2 ^ 52 * 2 powi (k - 52) \<le> fl x"
    unfolding fl_eval [OF bounds] by (simp add: mult_right_mono)
  then have "2 powi k \<le> fl x"
    using \<open>(2::real) powi k = 2 ^ 52 * 2 powi (k - 52)\<close> by simp
  moreover have "(2::real) powi e \<le> 2 powi k"
    using ek by (simp add: power_int_increasing)
  ultimately show ?thesis by simp
qed

lemma floor_log2_bounds:
  assumes "0 < x"
  shows "2 powi \<lfloor>log 2 x\<rfloor> \<le> x" and "x < 2 powi (\<lfloor>log 2 x\<rfloor> + 1)"
proof -
  have "2 powr real_of_int \<lfloor>log 2 x\<rfloor> \<le> x \<and> x < 2 powr (real_of_int \<lfloor>log 2 x\<rfloor> + 1)"
    using floor_log_eq_powr_iff [of x 2 "\<lfloor>log 2 x\<rfloor>"] assms by simp
  then show "2 powi \<lfloor>log 2 x\<rfloor> \<le> x" and "x < 2 powi (\<lfloor>log 2 x\<rfloor> + 1)"
    using powr_real_of_int' [of 2 "\<lfloor>log 2 x\<rfloor>"] powr_real_of_int' [of 2 "\<lfloor>log 2 x\<rfloor> + 1"]
    by simp_all
qed

lemma fl_of_nat_exact:
  assumes "0 < n" "n < 2 ^ 53"
  shows "fl (of_int n) = of_int n"
proof -
  define x where "x = real_of_int n"
  have x1: "1 \<le> x" using assms(1) by (simp add: x_def)
  then have pos: "0 < x" by simp
  define k where "k = \<lfloor>log 2 x\<rfloor>"
  have k: "2 powi k \<le> x" "x < 2 powi (k + 1)"
    unfolding k_def using floor_log2_bounds [OF pos] by simp_all
  have "(2::real) powi 0 < 2 powi (k + 1)"
    using x1 k(2) by simp
  have k0: "0 \<le> k"
  proof (rule ccontr)
    assume "\<not> 0 \<le> k"
    then have "k + 1 \<le> 0" by simp
    then have "(2::real) powi (k + 1) \<le> 2 powi 0"
      by (intro power_int_increasing) simp_all
    with \<open>(2::real) powi 0 < 2 powi (k + 1)\<close> show False by simp
  qed
  have "x < 2 powi 53"
    using assms(2) unfolding x_def by (metis of_int_less_iff of_int_numeral of_int_power power_int_numeral)
  with k(1) have "(2::real) powi k < 2 powi 53"
    by simp
  have k52: "k \<le> 52"
  proof (rule ccontr)
    assume "\<not> k \<le> 52"
    then have "53 \<le> k" by simp
    then have "(2::real) powi 53 \<le> 2 powi k"
      by (intro power_int_increasing) simp_all
    with \<open>(2::real) powi k < 2 powi 53\<close> show False by simp
  qed
  have bounds: "2 powi k \<le> \<bar>x\<bar>" "\<bar>x\<bar> < 2 powi (k + 1)" "- 1022 \<le> k"
    using k pos k0 by simp_all
  define m where "m = nat (52 - k)"
  have p: "(2::real) powi (k - 52) = inverse (2 ^ m)"
    using k52 by (auto simp: power_int_def m_def power_one_over inverse_eq_divide)
  have "x / 2 powi (k - 52) = of_int (n * 2 ^ m)"
    unfolding p x_def by (simp add: field_simps)
  then have "round_half_even (x / 2 powi (k - 52)) = n * 2 ^ m"
    by (simp only: round_half_even_of_int)
  then have "fl x = of_int (n * 2 ^ m) * inverse (2 ^ m)"
    unfolding fl_eval [OF bounds] p by simp
  then show ?thesis
    by (simp add: x_def)
qed

lemma fl_of_int_exact:
  assumes "\<bar>n\<bar> < 2 ^ 53"
  shows "fl (of_int n) = of_int n"
proof -
  consider "n = 0" | "0 < n" | "n < 0" by linarith
  then show ?thesis
  proof cases
    case 1
    then show ?thesis by (simp add: fl_zero)
  next
    case 2
    with assms show ?thesis by (intro fl_of_nat_exact) simp_all
  next
    case 3
    with assms have "fl (of_int (- n)) = of_int (- n)"
      by (intro fl_of_nat_exact) simp_all
    then show ?thesis by (simp add: fl_minus)
  qed
qed

lemma small_below_DBL_MAX: "\<bar>x\<bar> \<le> 2 ^ 53 \<Longrightarrow> \<not> DBL_MAX < \<bar>x\<bar>"
proof -
  assume a: "\<bar>x\<bar> \<le> 2 ^ 53"
  have "(2::real) ^ 53 \<le> (2 ^ 53 - 1) * 2 ^ 971"
    by simp
  with a show ?thesis by (simp add: DBL_MAX_def)
qed

lemma int_to_float_exact:
  assumes "\<bar>n\<bar> < 2 ^ 53"
  shows "int_to_float n = Inr (of_int n)"
proof -
  have "real_of_int \<bar>n\<bar> < real_of_int (2 ^ 53)"
    using assms by (simp only: of_int_less_iff)
  then have "\<bar>real_of_int n\<bar> \<le> 2 ^ 53"
    by simp
  then show ?thesis
    by (simp add: int_to_float_def fl_of_int_exact [OF assms] small_below_DBL_MAX)
qed

lemma ms_to_seconds_whole:
  assumes "\<bar>k\<bar> < 2 ^ 43"
  shows "ms_to_seconds (1000 * k) = Inr (of_int k)"
proof -
  have a: "\<bar>1000 * k\<bar> < 2 ^ 53" using assms by simp
  have b: "\<bar>k\<bar> < 2 ^ 53" using assms by simp
  show ?thesis
    by (simp add: ms_to_seconds_def int_to_float_exact [OF a] then_do_def fl_of_int_exact [OF b])
qed

lemma ms_to_seconds_pos:
  assumes "0 < d" "ms_to_seconds d = Inr x"
  shows "0 < x"
proof -
  have "(2::real) powi 0 \<le> of_int d" using assms(1) by simp
  then have "2 powi 0 \<le> fl (of_int d)" by (rule fl_ge_power) simp
  then have "2 powi (- 10) \<le> fl (of_int d) / 1000" by simp
  then have "2 powi (- 10) \<le> fl (fl (of_int d) / 1000)" by (rule fl_ge_power) simp
  moreover from assms(2) have "x = fl (fl (of_int d) / 1000)"
    by (auto simp: ms_to_seconds_def int_to_float_def then_do_def split: if_splits)
  ultimately show ?thesis by simp
qed

lemma ms_to_seconds_minus:
  "ms_to_seconds d = Inr x \<Longrightarrow> ms_to_seconds (- d) = Inr (- x)"
  by (auto simp: ms_to_seconds_def int_to_float_def then_do_def fl_minus split: if_splits)

lemma ms_to_seconds_sign:
  assumes "ms_to_seconds d = Inr x"
  shows "(x < 0 \<longleftrightarrow> d < 0) \<and> (x = 0 \<longleftrightarrow> d = 0)"
proof -
  consider "d = 0" | "0 < d" | "d < 0" by linarith
  then show ?thesis
  proof cases
    case 1
    with assms show ?thesis
      by (auto simp: ms_to_seconds_def int_to_float_def then_do_def fl_zero split: if_splits)
  next
    case 2
    with assms have "0 < x" by (intro ms_to_seconds_pos)
    with 2 show ?thesis by simp
  next
    case 3
    then have "0 < - d" by simp
    moreover from assms have "ms_to_seconds (- d) = Inr (- x)" by (rule ms_to_seconds_minus)
    ultimately have "0 < - x" by (rule ms_to_seconds_pos)
    with 3 show ?thesis by simp
  qed
qed

lemma ms_to_seconds_nearest:
  assumes "\<bar>d\<bar> < 2 ^ 53"
  shows "ms_to_seconds d = Inr (fl (of_int d / 1000))"
  by (simp add: ms_to_seconds_def int_to_float_exact [OF assms] then_do_def)

lemma ms_to_seconds_concrete:
  "ms_to_seconds 1000 = Inr 1"
  "ms_to_seconds (- 1000) = Inr (- 1)"
  "ms_to_seconds 1700000000000 = Inr 1700000000"
  "ms_to_seconds 1700000001000 = Inr 1700000001"
  using ms_to_seconds_whole [of 1] ms_to_seconds_whole [of "- 1"]
    ms_to_seconds_whole [of 1700000000] ms_to_seconds_whole [of 1700000001]
  by simp_all

section \<open>Facts about grouping\<close>

lemma set_first_seen: "set (first_seen xs) = set xs"
  by (induction xs) auto

lemma distinct_first_seen: "distinct (first_seen xs)"
  by (induction xs) (auto simp: set_first_seen)

lemma first_seen_snoc:
  "first_seen (xs @ [x]) = (if x \<in> set xs then first_seen xs else first_seen xs @ [x])"
  by (induction xs) (auto simp: set_first_seen)

lemma group_by_snoc:
  "group_by keyf valf (xs @ [x]) = group_append (keyf x) (valf x) (group_by keyf valf xs)"
  by (simp add: group_by_def)

lemma group_append_absent:
  "k \<notin> set ks \<Longrightarrow>
   group_append k v (map (\<lambda>k'. (k', g k')) ks) = map (\<lambda>k'. (k', g k')) ks @ [(k, [v])]"
  by (induction ks) auto

lemma group_append_present:
  "k \<in> set ks \<Longrightarrow> distinct ks \<Longrightarrow>
   group_append k v (map (\<lambda>k'. (k', g k')) ks)
     = map (\<lambda>k'. (k', if k' = k then g k' @ [v] else g k')) ks"
  by (induction ks) auto

lemma filter_key_absent:
  "k \<notin> set (map keyf xs) \<Longrightarrow> filter (\<lambda>y. keyf y = k) xs = []"
  by (induction xs) auto

text \<open>
  The dictionary built by the grouping loop: its keys are the distinct keys in the order
  of their first occurrence, each with the values of all elements of that key, in order.
\<close>

lemma group_by_eq:
  "group_by keyf valf xs
     = map (\<lambda>k. (k, map valf (filter (\<lambda>x. keyf x = k) xs))) (first_seen (map keyf xs))"
proof (induction xs rule: rev_induct)
  case Nil
  then show ?case by (simp add: group_by_def)
next
  case (snoc x xs)
  let ?g = "\<lambda>k. map valf (filter (\<lambda>x. keyf x = k) xs)"
  show ?case
  proof (cases "keyf x \<in> set (map keyf xs)")
    case True
    then have "keyf x \<in> set (first_seen (map keyf xs))" by (simp add: set_first_seen)
    from group_append_present [OF this distinct_first_seen, of "valf x" ?g] snoc True
    show ?thesis
      by (simp add: group_by_snoc first_seen_snoc cong: map_cong)
  next
    case False
    then have nin: "keyf x \<notin> set (first_seen (map keyf xs))" by (simp add: set_first_seen)
    have "filter (\<lambda>y. keyf y = keyf x) xs = []"
      using False by (rule filter_key_absent)
    with group_append_absent [OF nin, of "valf x" ?g] snoc False nin
    show ?thesis
      by (auto simp add: group_by_snoc first_seen_snoc set_first_seen cong: map_cong)
  qed
qed

section \<open>Facts about the build aggregator and the history importer\<close>

lemma status_partition:
  "int (length rs) =
     count_status ''passed'' rs + count_status ''failed'' rs + count_status ''skipped'' rs
     + count_status ''broken'' rs
     + int (length (filter (\<lambda>r. status r \<notin> set [''passed'', ''failed'', ''skipped'',
          ''broken'']) rs))"
  by (induction rs) (auto simp: count_status_def)

lemma count_status_nonneg: "0 \<le> count_status s rs"
  by (simp add: count_status_def)

lemma summarize_build_counts:
  assumes "summarize_build (bn, rs) = Some s"
  shows "bs_build_number s = bn \<and> total_tests s = int (length rs)
    \<and> passed_tests s = count_status ''passed'' rs
    \<and> failed_tests s = count_status ''failed'' rs
    \<and> skipped_tests s = count_status ''skipped'' rs
    \<and> broken_tests s = count_status ''broken'' rs"
  using assms by (cases rs) (auto simp: Let_def)

lemma aggregate_builds_member:
  assumes "s \<in> set (aggregate_builds results)"
  shows "\<exists>bn \<in> set (map build_number results).
           summarize_build (bn, filter (\<lambda>r. build_number r = bn) results) = Some s"
  using assms
  by (auto simp: aggregate_builds_def group_by_eq List.map_filter_def set_first_seen)

lemma aggregate_builds_counts:
  assumes "s \<in> set (aggregate_builds results)"
  shows "(let rs = filter (\<lambda>r. build_number r = bs_build_number s) results in
        total_tests s = int (length rs)
      \<and> total_tests s = passed_tests s + failed_tests s + skipped_tests s + broken_tests s
           + int (length (filter (\<lambda>r. status r \<notin> set [''passed'', ''failed'', ''skipped'',
                ''broken'']) rs))
      \<and> 0 \<le> passed_tests s \<and> 0 \<le> failed_tests s \<and> 0 \<le> skipped_tests s
      \<and> 0 \<le> broken_tests s)"
proof -
  from aggregate_builds_member [OF assms] obtain bn where
    sb: "summarize_build (bn, filter (\<lambda>r. build_number r = bn) results) = Some s"
    by blast
  note c = summarize_build_counts [OF sb]
  from c have bn: "bs_build_number s = bn" by simp
  let ?rs = "filter (\<lambda>r. build_number r = bs_build_number s) results"
  from c bn have t: "total_tests s = int (length ?rs)"
    and p: "passed_tests s = count_status ''passed'' ?rs"
    and f: "failed_tests s = count_status ''failed'' ?rs"
    and k: "skipped_tests s = count_status ''skipped'' ?rs"
    and b: "broken_tests s = count_status ''broken'' ?rs"
    by simp_all
  have "total_tests s = passed_tests s + failed_tests s + skipped_tests s + broken_tests s
           + int (length (filter (\<lambda>r. status r \<notin> set [''passed'', ''failed'', ''skipped'',
                ''broken'']) ?rs))"
    unfolding t p f k b by (rule status_partition)
  with t p f k b show ?thesis
    by (simp only: Let_def count_status_nonneg simp_thms)
qed

lemma parse_history_entry_counts:
  assumes "parse_history_entry fw fromtimestamp now e = Some h"
  shows "total_tests h = nested_get (he_statistic e) hs_total
       \<and> passed_tests h = nested_get (he_statistic e) hs_passed
       \<and> failed_tests h = nested_get (he_statistic e) hs_failed
       \<and> skipped_tests h = nested_get (he_statistic e) hs_skipped
       \<and> broken_tests h = nested_get (he_statistic e) hs_broken"
  using assms by (auto simp: parse_history_entry_def Let_def split: option.splits if_splits)

lemma parse_raw_no_status:
  "parse_test_result ''auto'' utc_fromtimestamp 0 raw_no_status =
   Some \<lparr>name = ''suite.test_a'', status = ''unknown'', duration = 1,
         timestamp = 63835596800000000, build_number = ''42'', branch = ''unknown'',
         framework = ''auto'', error_message = None, category = Some ''unknown_failure''\<rparr>"
  by (simp add: parse_test_result_def parse_test_result_try_def raw_no_status_def
      status_lower_def get_int_def subtract_times_def convert_timestamp_def read_labels_def
      read_error_message_def ms_to_seconds_concrete then_do_def get_or_def Let_def
      labels_get_def lower_def lower_char_def categorize_test_def utc_fromtimestamp_def
      valid_datetime_def DATETIME_MAX_def US_PER_DAY_def)

lemma results_no_status_eq:
  "results_no_status =
   [\<lparr>name = ''suite.test_a'', status = ''unknown'', duration = 1,
     timestamp = 63835596800000000, build_number = ''42'', branch = ''unknown'',
     framework = ''auto'', error_message = None, category = Some ''unknown_failure''\<rparr>]"
  by (simp add: results_no_status_def parse_raw_no_status)

lemma aggregate_results_no_status:
  "aggregate_builds results_no_status = [summary_no_status]"
  by (simp add: results_no_status_eq aggregate_builds_def group_by_def count_status_def
      summary_no_status_def)

lemma parse_history_inconsistent:
  "parse_history_entry ''auto'' utc_fromtimestamp 0 history_inconsistent
     = Some summary_history_inconsistent"
  by (simp add: parse_history_entry_def history_inconsistent_def get_or_def nested_get_def
      Let_def utc_fromtimestamp_def valid_datetime_def DATETIME_MAX_def US_PER_DAY_def
      summary_history_inconsistent_def)

section \<open>Claims about build summaries\<close>

text \<open>
  Claim C1, as the code has it. The aggregator counts every result of a build in
  \<open>total_tests\<close>, whatever its status, so for every summary it produces the total is the
  number of the build's results and equals passed + failed + skipped + broken plus the
  number of results whose status is none of these four; the four counts and the total are
  non-negative. The history importer copies the five counts of the entry's \<open>statistic\<close>
  object (0 for an absent one) without comparing them.
\<close>

theorem build_summary_counts:
  "(s \<in> set (aggregate_builds results) \<longrightarrow>
      (let rs = filter (\<lambda>r. build_number r = bs_build_number s) results in
        total_tests s = int (length rs)
      \<and> total_tests s = passed_tests s + failed_tests s + skipped_tests s + broken_tests s
           + int (length (filter (\<lambda>r. status r \<notin> set [''passed'', ''failed'', ''skipped'',
                ''broken'']) rs))
      \<and> 0 \<le> passed_tests s \<and> 0 \<le> failed_tests s \<and> 0 \<le> skipped_tests s
      \<and> 0 \<le> broken_tests s))
   \<and> (parse_history_entry fw fromtimestamp now e = Some h \<longrightarrow>
        total_tests h = nested_get (he_statistic e) hs_total
      \<and> passed_tests h = nested_get (he_statistic e) hs_passed
      \<and> failed_tests h = nested_get (he_statistic e) hs_failed
      \<and> skipped_tests h = nested_get (he_statistic e) hs_skipped
      \<and> broken_tests h = nested_get (he_statistic e) hs_broken)"
proof (rule conjI; rule impI)
  assume "s \<in> set (aggregate_builds results)"
  then show "let rs = filter (\<lambda>r. build_number r = bs_build_number s) results in
        total_tests s = int (length rs)
      \<and> total_tests s = passed_tests s + failed_tests s + skipped_tests s + broken_tests s
           + int (length (filter (\<lambda>r. status r \<notin> set [''passed'', ''failed'', ''skipped'',
                ''broken'']) rs))
      \<and> 0 \<le> passed_tests s \<and> 0 \<le> failed_tests s \<and> 0 \<le> skipped_tests s
      \<and> 0 \<le> broken_tests s"
    by (rule aggregate_builds_counts)
next
  assume "parse_history_entry fw fromtimestamp now e = Some h"
  then show "total_tests h = nested_get (he_statistic e) hs_total
      \<and> passed_tests h = nested_get (he_statistic e) hs_passed
      \<and> failed_tests h = nested_get (he_statistic e) hs_failed
      \<and> skipped_tests h = nested_get (he_statistic e) hs_skipped
      \<and> broken_tests h = nested_get (he_statistic e) hs_broken"
    by (rule parse_history_entry_counts)
qed

theorem build_summary_counts_witness:
  "summary_no_status \<in> set (aggregate_builds results_no_status)
   \<and> total_tests summary_no_status = 1
   \<and> passed_tests summary_no_status + failed_tests summary_no_status
       + skipped_tests summary_no_status + broken_tests summary_no_status = 0
   \<and> int (length (filter (\<lambda>r. status r \<notin> set [''passed'', ''failed'', ''skipped'', ''broken''])
        (filter (\<lambda>r. build_number r = bs_build_number summary_no_status) results_no_status)))
       = 1
   \<and> parse_history_entry ''auto'' utc_fromtimestamp 0 history_inconsistent
       = Some summary_history_inconsistent
   \<and> nested_get (he_statistic history_inconsistent) hs_total = 5
   \<and> nested_get (he_statistic history_inconsistent) hs_skipped = 0"
proof -
  have m: "summary_no_status \<in> set (aggregate_builds results_no_status)"
    by (simp add: aggregate_results_no_status)
  note h = parse_history_inconsistent
  note th = build_summary_counts [of summary_no_status results_no_status "''auto''"
      utc_fromtimestamp 0 history_inconsistent summary_history_inconsistent]
  note a = th [THEN conjunct1, THEN mp, OF m]
  note b = th [THEN conjunct2, THEN mp, OF h]
  have t: "total_tests summary_no_status = 1"
    and z: "passed_tests summary_no_status + failed_tests summary_no_status
       + skipped_tests summary_no_status + broken_tests summary_no_status = 0"
    by (simp_all add: summary_no_status_def)
  from a t z have o: "int (length (filter
        (\<lambda>r. status r \<notin> set [''passed'', ''failed'', ''skipped'', ''broken''])
        (filter (\<lambda>r. build_number r = bs_build_number summary_no_status) results_no_status)))
       = 1"
    by (simp add: Let_def)
  from b have c: "nested_get (he_statistic history_inconsistent) hs_total = 5"
    and d: "nested_get (he_statistic history_inconsistent) hs_skipped = 0"
    by (simp_all add: summary_history_inconsistent_def)
  from m t z o h c d show ?thesis by (intro conjI)
qed

text \<open>
  The equation of claim C1 fails on both paths: a build whose only result has the status
  \<open>unknown\<close> gets total 1 and four counts 0, and the importer keeps an entry with total 5,
  one passed and one failed.
\<close>

theorem total_not_sum_counterexample:
  "map total_tests (aggregate_builds results_no_status) = [1]
   \<and> map passed_tests (aggregate_builds results_no_status) = [0]
   \<and> map failed_tests (aggregate_builds results_no_status) = [0]
   \<and> map skipped_tests (aggregate_builds results_no_status) = [0]
   \<and> map broken_tests (aggregate_builds results_no_status) = [0]
   \<and> map status results_no_status = [''unknown'']
   \<and> map_option total_tests
        (parse_history_entry ''auto'' utc_fromtimestamp 0 history_inconsistent) = Some 5
   \<and> map_option passed_tests
        (parse_history_entry ''auto'' utc_fromtimestamp 0 history_inconsistent) = Some 1
   \<and> map_option failed_tests
        (parse_history_entry ''auto'' utc_fromtimestamp 0 history_inconsistent) = Some 1
   \<and> map_option skipped_tests
        (parse_history_entry ''auto'' utc_fromtimestamp 0 history_inconsistent) = Some 0
   \<and> map_option broken_tests
        (parse_history_entry ''auto'' utc_fromtimestamp 0 history_inconsistent) = Some 0"
proof -
  have s: "map status results_no_status = [''unknown'']"
    by (simp add: results_no_status_eq)
  show ?thesis
    unfolding aggregate_results_no_status parse_history_inconsistent s
    by (simp add: summary_no_status_def summary_history_inconsistent_def)
qed

section \<open>Claims about the result parser\<close>

lemma parse_test_result_duration:
  assumes "parse_test_result fw fromtimestamp now data = Some r"
    and "get_int (raw_start data) = Some a" and "get_int (raw_stop data) = Some b"
  shows "ms_to_seconds (b - a) = Inr (duration r)"
  using assms
  by (auto simp: parse_test_result_def parse_test_result_try_def then_do_def
      subtract_times_def Let_def split: sum.splits)

lemma parse_test_result_times:
  assumes "parse_test_result fw fromtimestamp now data = Some r"
  shows "raw_start data \<noteq> JsonNull \<and> raw_stop data \<noteq> JsonNull"
  using assms
  by (auto simp: parse_test_result_def parse_test_result_try_def then_do_def
      subtract_times_def get_int_def Let_def split: sum.splits json_field.splits)

text \<open>
  Claim C7, as the code has it. The duration of an accepted record is the quotient
  \<open>(stop - start) / 1000.0\<close>, an absent time read as 0, rounded as the float division
  rounds it and stored without any clamping: it is negative exactly when
  \<open>stop < start\<close> and zero exactly when \<open>stop = start\<close>. A difference of less than
  \<open>2 ^ 53\<close> milliseconds gives the double nearest to the exact quotient.
\<close>

theorem parsed_duration_unclamped:
  "(parse_test_result fw fromtimestamp now data = Some r \<longrightarrow>
      raw_start data \<noteq> JsonNull \<and> raw_stop data \<noteq> JsonNull)
   \<and> (parse_test_result fw fromtimestamp now data = Some r
        \<and> get_int (raw_start data) = Some start_time
        \<and> get_int (raw_stop data) = Some stop_time \<longrightarrow>
        ms_to_seconds (stop_time - start_time) = Inr (duration r)
        \<and> (duration r < 0 \<longleftrightarrow> stop_time < start_time)
        \<and> (duration r = 0 \<longleftrightarrow> stop_time = start_time)
        \<and> (0 \<le> duration r \<longleftrightarrow> start_time \<le> stop_time)
        \<and> (\<bar>stop_time - start_time\<bar> < 2 ^ 53 \<longrightarrow>
              duration r = fl (real_of_int (stop_time - start_time) / 1000)))"
proof (intro conjI impI)
  assume "parse_test_result fw fromtimestamp now data = Some r"
  then have t: "raw_start data \<noteq> JsonNull \<and> raw_stop data \<noteq> JsonNull"
    by (rule parse_test_result_times)
  from t show "raw_start data \<noteq> JsonNull" by (rule conjunct1)
  from t show "raw_stop data \<noteq> JsonNull" by (rule conjunct2)
next
  assume h: "parse_test_result fw fromtimestamp now data = Some r
        \<and> get_int (raw_start data) = Some start_time
        \<and> get_int (raw_stop data) = Some stop_time"
  then have d: "ms_to_seconds (stop_time - start_time) = Inr (duration r)"
    by (intro parse_test_result_duration [of fw fromtimestamp now data r start_time stop_time])
      simp_all
  note s = ms_to_seconds_sign [OF d]
  show "ms_to_seconds (stop_time - start_time) = Inr (duration r)" by (rule d)
  from s show "duration r < 0 \<longleftrightarrow> stop_time < start_time" by simp
  from s show "duration r = 0 \<longleftrightarrow> stop_time = start_time" by simp
  from s show "0 \<le> duration r \<longleftrightarrow> start_time \<le> stop_time" by auto
  {
    assume "\<bar>stop_time - start_time\<bar> < 2 ^ 53"
    then have "ms_to_seconds (stop_time - start_time)
        = Inr (fl (real_of_int (stop_time - start_time) / 1000))"
      by (rule ms_to_seconds_nearest)
    with d show "duration r = fl (real_of_int (stop_time - start_time) / 1000)"
      by simp
  }
qed

theorem parsed_duration_unclamped_witness:
  "parse_test_result ''auto'' utc_fromtimestamp 0 raw_no_status
     = Some \<lparr>name = ''suite.test_a'', status = ''unknown'', duration = 1,
         timestamp = 63835596800000000, build_number = ''42'', branch = ''unknown'',
         framework = ''auto'', error_message = None, category = Some ''unknown_failure''\<rparr>
   \<and> get_int (raw_start raw_no_status) = Some 1700000000000
   \<and> get_int (raw_stop raw_no_status) = Some 1700000001000
   \<and> raw_start raw_no_status \<noteq> JsonNull
   \<and> ms_to_seconds (1700000001000 - 1700000000000) = Inr 1
   \<and> (1700000000000 :: int) \<le> 1700000001000
   \<and> \<bar>1700000001000 - 1700000000000 :: int\<bar> < 2 ^ 53
   \<and> fl (real_of_int (1700000001000 - 1700000000000) / 1000) = 1"
proof -
  note p = parse_raw_no_status
  have a: "get_int (raw_start raw_no_status) = Some 1700000000000"
    and b: "get_int (raw_stop raw_no_status) = Some 1700000001000"
    by (simp_all add: raw_no_status_def get_int_def)
  note th = parsed_duration_unclamped [of "''auto''" utc_fromtimestamp 0 raw_no_status
      "\<lparr>name = ''suite.test_a'', status = ''unknown'', duration = 1,
         timestamp = 63835596800000000, build_number = ''42'', branch = ''unknown'',
         framework = ''auto'', error_message = None, category = Some ''unknown_failure''\<rparr>"
      1700000000000 1700000001000]
  note n = th [THEN conjunct1, THEN mp, OF p, THEN conjunct1]
  note c = th [THEN conjunct2, THEN mp, OF conjI [OF p conjI [OF a b]]]
  from c have d: "ms_to_seconds (1700000001000 - 1700000000000) = Inr 1"
    by simp
  from c have o: "(1700000000000 :: int) \<le> 1700000001000"
    by simp
  have l: "\<bar>1700000001000 - 1700000000000 :: int\<bar> < 2 ^ 53"
    by simp
  note q = c [THEN conjunct2, THEN conjunct2, THEN conjunct2, THEN conjunct2, THEN mp, OF l]
  from q have f: "fl (real_of_int (1700000001000 - 1700000000000) / 1000) = 1"
    by simp
  from p a b n d o l f show ?thesis by (intro conjI)
qed

text \<open>
  The clamping of claim C7 does not happen: a record that stops one second before it
  starts is accepted with the duration \<open>-1\<close>.
\<close>

theorem negative_duration_counterexample:
  "map_option duration (parse_test_result ''auto'' utc_fromtimestamp 0 raw_stop_before_start)
     = Some (- 1)"
  by (simp add: parse_test_result_def parse_test_result_try_def raw_stop_before_start_def
      status_lower_def get_int_def subtract_times_def convert_timestamp_def read_labels_def
      read_error_message_def ms_to_seconds_concrete then_do_def get_or_def Let_def
      labels_get_def lower_def lower_char_def categorize_test_def utc_fromtimestamp_def
      valid_datetime_def DATETIME_MAX_def US_PER_DAY_def)

section \<open>Claims about the analysis of an empty window\<close>

lemma cutoff_date_lookback:
  assumes "valid_datetime now" and "0 \<le> d" and "0 \<le> t" and "\<not> now - d * US_PER_DAY \<le> t"
  shows "cutoff_date now d = Inr (now - d * US_PER_DAY)"
proof -
  from assms(3,4) have c0: "0 \<le> now - d * US_PER_DAY" by simp
  from assms(1) have n: "now \<le> DATETIME_MAX" by (simp add: valid_datetime_def)
  have "0 \<le> d * US_PER_DAY" using assms(2) by (simp add: US_PER_DAY_def)
  with n have c1: "now - d * US_PER_DAY \<le> DATETIME_MAX" by simp
  have "d \<le> MAX_DELTA_DAYS"
  proof (rule ccontr)
    assume "\<not> d \<le> MAX_DELTA_DAYS"
    then have "1000000000 \<le> d" by (simp add: MAX_DELTA_DAYS_def)
    then have "1000000000 * US_PER_DAY \<le> d * US_PER_DAY"
      by (simp add: US_PER_DAY_def)
    with n c0 show False by (simp add: DATETIME_MAX_def US_PER_DAY_def)
  qed
  with assms(2) c0 c1 show ?thesis
    by (simp add: cutoff_date_def Let_def MAX_DELTA_DAYS_def)
qed

lemma cutoff_date_ahead:
  assumes "valid_datetime now" and "\<not> 0 \<le> d" and "- MAX_DELTA_DAYS \<le> d"
    and "now - d * US_PER_DAY \<le> DATETIME_MAX"
  shows "cutoff_date now d = Inr (now - d * US_PER_DAY)"
proof -
  from assms(1) have n: "0 \<le> now" by (simp add: valid_datetime_def)
  from assms(2) have "d * US_PER_DAY \<le> 0"
    by (simp add: US_PER_DAY_def)
  with n have c0: "0 \<le> now - d * US_PER_DAY" by simp
  from assms(2) have "d \<le> MAX_DELTA_DAYS" by (simp add: MAX_DELTA_DAYS_def)
  with assms(3,4) c0 show ?thesis
    by (simp add: cutoff_date_def Let_def)
qed

lemma analyze_trends_empty:
  "build_summaries self = [] \<Longrightarrow> analyze_trends clock days_back self = Inr zeroed_metrics"
  by (simp add: analyze_trends_def)

lemma analyze_trends_none_recent:
  assumes "cutoff_date (now_builds clock) days_back = Inr c"
    and "\<forall>b \<in> set (build_summaries self). \<not> c \<le> bs_timestamp b"
  shows "analyze_trends clock days_back self = Inr zeroed_metrics"
proof -
  from assms(2) have "filter (\<lambda>b. c \<le> bs_timestamp b) (build_summaries self) = []"
    by (simp add: filter_empty_conv)
  with assms(1) show ?thesis
    by (simp add: analyze_trends_def then_do_def Let_def)
qed

lemma analyze_trends_zeroed:
  assumes "build_summaries self = [] \<or>
     (valid_datetime (now_builds clock)
      \<and> (\<forall>b \<in> set (build_summaries self). valid_datetime (bs_timestamp b))
      \<and> (0 \<le> days_back
          \<or> (- MAX_DELTA_DAYS \<le> days_back
              \<and> now_builds clock - days_back * US_PER_DAY \<le> DATETIME_MAX))
      \<and> (\<forall>b \<in> set (build_summaries self).
            \<not> bs_timestamp b \<ge> now_builds clock - days_back * US_PER_DAY))"
  shows "analyze_trends clock days_back self = Inr zeroed_metrics"
proof (cases "build_summaries self = []")
  case True
  then show ?thesis by (rule analyze_trends_empty)
next
  case False
  with assms have v: "valid_datetime (now_builds clock)"
    and vb: "\<forall>b \<in> set (build_summaries self). valid_datetime (bs_timestamp b)"
    and d: "0 \<le> days_back
          \<or> (- MAX_DELTA_DAYS \<le> days_back
              \<and> now_builds clock - days_back * US_PER_DAY \<le> DATETIME_MAX)"
    and w: "\<forall>b \<in> set (build_summaries self).
            \<not> bs_timestamp b \<ge> now_builds clock - days_back * US_PER_DAY"
    by blast+
  from False obtain b0 where b0: "b0 \<in> set (build_summaries self)"
    by (cases "build_summaries self") auto
  have c: "cutoff_date (now_builds clock) days_back
      = Inr (now_builds clock - days_back * US_PER_DAY)"
  proof (cases "0 \<le> days_back")
    case True
    from vb b0 have "0 \<le> bs_timestamp b0" by (simp add: valid_datetime_def)
    moreover from w b0 have "\<not> now_builds clock - days_back * US_PER_DAY \<le> bs_timestamp b0"
      by simp
    ultimately show ?thesis using v True by (intro cutoff_date_lookback)
  next
    case False
    with d have "- MAX_DELTA_DAYS \<le> days_back"
      and "now_builds clock - days_back * US_PER_DAY \<le> DATETIME_MAX"
      by simp_all
    with v False show ?thesis by (intro cutoff_date_ahead)
  qed
  from c w show ?thesis by (intro analyze_trends_none_recent) simp_all
qed

text \<open>
  Claim C3, as the code has it. \<open>analyze_trends\<close> returns the zeroed metrics, and raises
  nothing, when the collection of build summaries is empty, whatever \<open>days_back\<close> is,
  and when no summary has a timestamp \<open>\<ge> now - days_back\<close>, for every look-back window
  \<open>days_back \<ge> 0\<close> and for every negative \<open>days_back \<ge> -999999999\<close> that leaves
  \<open>now - days_back\<close> days at or before \<open>datetime.max\<close>. Datetimes are the values of
  Python's \<open>datetime\<close>: between 0001-01-01 and 9999-12-31.
\<close>

theorem analyze_trends_no_data:
  assumes "build_summaries self = [] \<or>
     (valid_datetime (now_builds clock)
      \<and> (\<forall>b \<in> set (build_summaries self). valid_datetime (bs_timestamp b))
      \<and> (0 \<le> days_back
          \<or> (- MAX_DELTA_DAYS \<le> days_back
              \<and> now_builds clock - days_back * US_PER_DAY \<le> DATETIME_MAX))
      \<and> (\<forall>b \<in> set (build_summaries self).
            \<not> bs_timestamp b \<ge> now_builds clock - days_back * US_PER_DAY))"
  shows "analyze_trends clock days_back self =
     Inr \<lparr>average_pass_rate = 0, pass_rate_trend = ''unknown'', average_duration = 0,
          duration_trend = ''unknown'', total_builds = 0, flaky_tests = [],
          most_failed_tests = [], failure_categories = [], performance_regressions = []\<rparr>"
  using analyze_trends_zeroed [OF assms] by (simp add: zeroed_metrics_def)

theorem analyze_trends_no_data_witness:
  "build_summaries analyzer_old_build = [summary_no_status]
   \<and> valid_datetime (now_builds clock_later)
   \<and> valid_datetime (bs_timestamp summary_no_status)
   \<and> \<not> bs_timestamp summary_no_status \<ge> now_builds clock_later - 30 * US_PER_DAY
   \<and> analyze_trends clock_later 30 analyzer_old_build =
       Inr \<lparr>average_pass_rate = 0, pass_rate_trend = ''unknown'', average_duration = 0,
            duration_trend = ''unknown'', total_builds = 0, flaky_tests = [],
            most_failed_tests = [], failure_categories = [], performance_regressions = []\<rparr>
   \<and> - MAX_DELTA_DAYS \<le> - 10
   \<and> now_builds clock_later - (- 10) * US_PER_DAY \<le> DATETIME_MAX
   \<and> \<not> bs_timestamp summary_no_status \<ge> now_builds clock_later - (- 10) * US_PER_DAY
   \<and> analyze_trends clock_later (- 10) analyzer_old_build =
       Inr \<lparr>average_pass_rate = 0, pass_rate_trend = ''unknown'', average_duration = 0,
            duration_trend = ''unknown'', total_builds = 0, flaky_tests = [],
            most_failed_tests = [], failure_categories = [], performance_regressions = []\<rparr>
   \<and> analyze_trends clock_later (- 3000000) (analyzer_old_build\<lparr>build_summaries := []\<rparr>) =
       Inr \<lparr>average_pass_rate = 0, pass_rate_trend = ''unknown'', average_duration = 0,
            duration_trend = ''unknown'', total_builds = 0, flaky_tests = [],
            most_failed_tests = [], failure_categories = [], performance_regressions = []\<rparr>"
proof -
  have b: "build_summaries analyzer_old_build = [summary_no_status]"
    by (simp add: analyzer_old_build_def)
  have v: "valid_datetime (now_builds clock_later)"
    by (simp add: clock_later_def valid_datetime_def DATETIME_MAX_def US_PER_DAY_def)
  have vb: "valid_datetime (bs_timestamp summary_no_status)"
    by (simp add: summary_no_status_def valid_datetime_def DATETIME_MAX_def US_PER_DAY_def)
  have w: "\<not> bs_timestamp summary_no_status \<ge> now_builds clock_later - 30 * US_PER_DAY"
    by (simp add: summary_no_status_def clock_later_def US_PER_DAY_def)
  have h: "build_summaries analyzer_old_build = [] \<or>
     (valid_datetime (now_builds clock_later)
      \<and> (\<forall>b \<in> set (build_summaries analyzer_old_build). valid_datetime (bs_timestamp b))
      \<and> (0 \<le> (30::int)
          \<or> (- MAX_DELTA_DAYS \<le> 30
              \<and> now_builds clock_later - 30 * US_PER_DAY \<le> DATETIME_MAX))
      \<and> (\<forall>b \<in> set (build_summaries analyzer_old_build).
            \<not> bs_timestamp b \<ge> now_builds clock_later - 30 * US_PER_DAY))"
    using v vb w by (simp add: b)
  note r1 = analyze_trends_no_data [OF h]
  have m: "- MAX_DELTA_DAYS \<le> - 10"
    by (simp add: MAX_DELTA_DAYS_def)
  have x: "now_builds clock_later - (- 10) * US_PER_DAY \<le> DATETIME_MAX"
    by (simp add: clock_later_def DATETIME_MAX_def US_PER_DAY_def)
  have y: "\<not> bs_timestamp summary_no_status \<ge> now_builds clock_later - (- 10) * US_PER_DAY"
    by (simp add: summary_no_status_def clock_later_def US_PER_DAY_def)
  have g: "build_summaries analyzer_old_build = [] \<or>
     (valid_datetime (now_builds clock_later)
      \<and> (\<forall>b \<in> set (build_summaries analyzer_old_build). valid_datetime (bs_timestamp b))
      \<and> (0 \<le> (- 10 :: int)
          \<or> (- MAX_DELTA_DAYS \<le> - 10
              \<and> now_builds clock_later - (- 10) * US_PER_DAY \<le> DATETIME_MAX))
      \<and> (\<forall>b \<in> set (build_summaries analyzer_old_build).
            \<not> bs_timestamp b \<ge> now_builds clock_later - (- 10) * US_PER_DAY))"
    using v vb m x y by (simp add: b)
  note r2 = analyze_trends_no_data [OF g]
  have e: "build_summaries (analyzer_old_build\<lparr>build_summaries := []\<rparr>) = [] \<or>
     (valid_datetime (now_builds clock_later)
      \<and> (\<forall>b \<in> set (build_summaries (analyzer_old_build\<lparr>build_summaries := []\<rparr>)).
            valid_datetime (bs_timestamp b))
      \<and> (0 \<le> (- 3000000 :: int)
          \<or> (- MAX_DELTA_DAYS \<le> - 3000000
              \<and> now_builds clock_later - (- 3000000) * US_PER_DAY \<le> DATETIME_MAX))
      \<and> (\<forall>b \<in> set (build_summaries (analyzer_old_build\<lparr>build_summaries := []\<rparr>)).
            \<not> bs_timestamp b \<ge> now_builds clock_later - (- 3000000) * US_PER_DAY))"
    by simp
  note r3 = analyze_trends_no_data [OF e]
  from b v vb w r1 m x y r2 r3 show ?thesis by (intro conjI)
qed

text \<open>
  Claim C3 fails for a window that lies far enough ahead: with \<open>days_back = -3000000\<close>
  the one build of the collection is older than \<open>now - days_back\<close> days, which would be
  a date after the year 9999, and \<open>analyze_trends\<close> raises \<open>OverflowError\<close>.
\<close>

theorem far_future_window_counterexample:
  "build_summaries analyzer_old_build = [summary_no_status]
   \<and> valid_datetime (now_builds clock_later)
   \<and> valid_datetime (bs_timestamp summary_no_status)
   \<and> \<not> bs_timestamp summary_no_status \<ge> now_builds clock_later - (- 3000000) * US_PER_DAY
   \<and> analyze_trends clock_later (- 3000000) analyzer_old_build = Inl OverflowError"
  by (simp add: analyze_trends_def analyzer_old_build_def clock_later_def summary_no_status_def
      cutoff_date_def then_do_def Let_def valid_datetime_def MAX_DELTA_DAYS_def
      DATETIME_MAX_def US_PER_DAY_def)

section \<open>Facts about trend-direction inference\<close>

lemma sum_list_upt: "(\<Sum>i\<leftarrow>[0..<n]. f i) = sum f {..<n}"
  by (simp add: interv_sum_list_conv_sum_set_nat atLeast0LessThan)

lemma trend_denominator_sum:
  "trend_denominator n = (\<Sum>i<n. (real i - (real n - 1) / 2) ^ 2)"
  by (simp add: trend_denominator_def Let_def sum_list_upt)

lemma trend_denominator_pos:
  assumes "2 \<le> n"
  shows "0 < trend_denominator n"
proof -
  have "0 < (\<Sum>i<n. (real i - (real n - 1) / 2) ^ 2)"
  proof (rule sum_pos2 [where i = 0])
    show "finite {..<n}" by simp
    show "0 \<in> {..<n}" using assms by simp
    show "0 < (real 0 - (real n - 1) / 2) ^ 2" using assms by simp
    show "\<And>i. i \<in> {..<n} \<Longrightarrow> 0 \<le> (real i - (real n - 1) / 2) ^ 2" by simp
  qed
  then show ?thesis by (simp add: trend_denominator_sum)
qed

lemma py_mean_nonempty: "xs \<noteq> [] \<Longrightarrow> py_mean xs = Inr (fl (mean xs))"
  by (simp add: py_mean_def mean_def)

lemma analyze_trend_short: "length vs < 3 \<Longrightarrow> analyze_trend vs r = Inr ''unknown''"
  by (simp add: analyze_trend_def)

lemma analyze_trend_known:
  assumes "3 \<le> length vs"
  shows "analyze_trend vs r = Inr ''improving'' \<or> analyze_trend vs r = Inr ''declining''
       \<or> analyze_trend vs r = Inr ''stable''"
proof -
  from assms have ne: "vs \<noteq> []" by auto
  from assms have l: "\<not> length vs < 3" by simp
  show ?thesis
    unfolding analyze_trend_def py_mean_nonempty [OF ne] then_do_def Let_def
    using l by simp
qed

lemma analyze_trend_total: "\<exists>s. analyze_trend vs r = Inr s"
proof (cases "length vs < 3")
  case True
  then show ?thesis by (simp add: analyze_trend_short)
next
  case False
  then have "3 \<le> length vs" by simp
  from analyze_trend_known [OF this, of r] show ?thesis by auto
qed


lemma fl_concrete:
  "fl (1 / 16) = 1 / 16"
  "fl (1 / 8) = 1 / 8"
  "fl 75 = 75"
  using fl_eval [of "- 4" "1 / 16"] fl_eval [of "- 3" "1 / 8"] fl_of_int_exact [of 75]
  by (simp_all add: round_half_even_def)

lemma analyze_trend_concrete:
  "analyze_trend [0, 1 / 16, 1 / 8] False = Inr ''stable''"
  "analyze_trend [0, 1 / 8, 1 / 4] False = Inr ''improving''"
  "analyze_trend [60, 75, 90] False = Inr ''improving''"
  by (simp_all add: analyze_trend_def py_mean_def then_do_def trend_numerator_def
      trend_denominator_def Let_def upt_rec fl_concrete)


lemma trend_denominator_3: "trend_denominator 3 = 2"
  by (simp add: trend_denominator_def Let_def upt_rec)

section \<open>Claims about trend-direction inference\<close>

text \<open>
  Claim C10. For every series of length at least 2 the denominator of the regression is
  strictly positive, so for every series that passes the length test the branch for a
  zero denominator is not taken; \<open>_analyze_trend\<close> returns a direction for every series
  and raises nothing.
\<close>

theorem trend_denominator_positive:
  "(2 \<le> n \<longrightarrow> 0 < trend_denominator n)
   \<and> (3 \<le> length values \<longrightarrow> trend_denominator (length values) \<noteq> 0)
   \<and> (\<exists>s. analyze_trend values reverse = Inr s)"
proof (intro conjI impI)
  assume "2 \<le> n"
  then show "0 < trend_denominator n" by (rule trend_denominator_pos)
next
  assume "3 \<le> length values"
  then have "0 < trend_denominator (length values)"
    by (intro trend_denominator_pos) simp
  then show "trend_denominator (length values) \<noteq> 0" by simp
next
  show "\<exists>s. analyze_trend values reverse = Inr s" by (rule analyze_trend_total)
qed

theorem trend_denominator_positive_witness:
  "(2::nat) \<le> 3 \<and> 0 < trend_denominator 3 \<and> trend_denominator 3 = 2
   \<and> 3 \<le> length [60, 75, 90 :: real]
   \<and> trend_denominator (length [60, 75, 90 :: real]) \<noteq> 0
   \<and> analyze_trend [60, 75, 90] False = Inr ''improving''"
proof -
  note th = trend_denominator_positive [of 3 "[60, 75, 90]" False]
  have a: "(2::nat) \<le> 3" by simp
  have b: "3 \<le> length [60, 75, 90 :: real]" by simp
  note p = th [THEN conjunct1, THEN mp, OF a]
  note q = th [THEN conjunct2, THEN conjunct1, THEN mp, OF b]
  note r = analyze_trend_concrete(3)
  from a p trend_denominator_3 b q r show ?thesis by (intro conjI)
qed



section \<open>Facts about flaky tests and performance regressions\<close>

lemma counter_eq: "counter xs = map (\<lambda>k. (k, count_list xs k)) (first_seen xs)"
proof -
  have "\<And>k. length (filter (\<lambda>x. x = k) xs) = count_list xs k"
    by (induction xs) auto
  then show ?thesis
    by (simp add: counter_def group_by_eq)
qed

lemma py_min_nonempty:
  assumes "xs \<noteq> []"
  shows "py_min xs = Inr (Min (set xs))"
proof -
  from assms obtain y ys where xs: "xs = y # ys" by (cases xs) auto
  have "foldl min y ys = fold min ys y"
    by (simp add: foldl_conv_fold min.commute)
  also have "\<dots> = Min (set (y # ys))"
    by (rule Min.set_eq_fold [symmetric])
  finally show ?thesis
    unfolding xs by (simp only: py_min.simps)
qed

lemma minority_count:
  assumes "statuses \<noteq> []"
  shows "py_min (map snd (counter statuses)) = Inr (least_frequent_count statuses)"
proof -
  have m: "map snd (counter statuses) = map (count_list statuses) (first_seen statuses)"
    by (simp add: counter_eq comp_def)
  from assms have "first_seen statuses \<noteq> []" by (cases statuses) auto
  then have "py_min (map snd (counter statuses))
      = Inr (Min (set (map (count_list statuses) (first_seen statuses))))"
    unfolding m by (intro py_min_nonempty) simp
  then show ?thesis
    by (simp add: least_frequent_count_def set_first_seen)
qed

lemma is_flaky_eq: "is_flaky statuses = Inr (flaky_by_least_frequent statuses)"
proof (cases "length (remdups statuses) > 1 \<and> length statuses \<ge> 3")
  case True
  then have ne: "statuses \<noteq> []" by auto
  from True have c: "1 < card (set statuses)" by (simp add: card_set)
  with True show ?thesis
    by (simp add: is_flaky_def minority_count [OF ne] then_do_def Let_def
        flaky_by_least_frequent_def)
next
  case False
  then show ?thesis
    by (auto simp: is_flaky_def flaky_by_least_frequent_def card_set)
qed

lemma select_keys_total:
  assumes "\<And>vals. test vals = Inr (p vals)"
  shows "select_keys test al = Inr (map fst (filter (\<lambda>(k, vals). p vals) al))"
  by (induction al) (auto simp: assms)

lemma select_keys_grouped:
  assumes "\<And>vals. test vals = Inr (p vals)"
  shows "select_keys test (group_by keyf valf xs)
     = Inr (filter (\<lambda>k. p (map valf (filter (\<lambda>x. keyf x = k) xs))) (first_seen (map keyf xs)))"
  unfolding select_keys_total [of test p, OF assms] group_by_eq
  by (simp add: filter_map comp_def)

lemma identify_flaky_tests_eq:
  assumes "cutoff_date now days_back = Inr cutoff"
  shows "identify_flaky_tests now days_back results =
     Inr (take 10 (filter
       (\<lambda>n. flaky_by_least_frequent
          (map status (filter (\<lambda>r. name r = n) (filter (\<lambda>r. cutoff \<le> timestamp r) results))))
       (first_seen (map name (filter (\<lambda>r. cutoff \<le> timestamp r) results)))))"
  unfolding identify_flaky_tests_def assms then_do_def Let_def
  by (simp add: select_keys_grouped [of is_flaky flaky_by_least_frequent, OF is_flaky_eq])

lemma is_flaky_examples:
  "is_flaky [''passed'', ''failed'', ''passed'', ''passed'', ''passed''] = Inr True"
  "is_flaky [''passed'', ''passed'', ''passed'', ''passed'', ''passed'', ''failed''] = Inr False"
  "is_flaky [''passed'', ''failed'', ''passed'', ''broken'', ''failed'', ''passed''] = Inr False"
  by (simp_all add: is_flaky_def counter_def group_by_def then_do_def Let_def)

lemma halves_nonempty:
  assumes "5 \<le> length ds"
  shows "take (length ds div 2) ds \<noteq> []" and "drop (length ds div 2) ds \<noteq> []"
proof -
  from assms have "ds \<noteq> []" and "0 < length ds div 2" and "length ds div 2 < length ds"
    by auto
  then show "take (length ds div 2) ds \<noteq> []" and "drop (length ds div 2) ds \<noteq> []"
    by (simp_all only: take_eq_Nil drop_eq_Nil) simp_all
qed

lemma is_regression_eq: "is_regression points = Inr (regressed points)"
proof (cases "length points < 5")
  case True
  then show ?thesis by (simp add: is_regression_def regressed_def)
next
  case False
  let ?ds = "map snd (sort_key fst points)"
  from False have l: "5 \<le> length ?ds" by simp
  note t = halves_nonempty(1) [OF l] and d = halves_nonempty(2) [OF l]
  from False have "is_regression points =
      then_do (py_mean (take (length ?ds div 2) ?ds)) (\<lambda>early_avg.
      then_do (py_mean (drop (length ?ds div 2) ?ds)) (\<lambda>recent_avg.
        Inr (recent_avg > fl (early_avg * (15 / 10)) \<and> recent_avg > 1)))"
    by (simp only: is_regression_def Let_def if_False)
  also have "\<dots> = Inr (fl (mean (drop (length ?ds div 2) ?ds))
        > fl (fl (mean (take (length ?ds div 2) ?ds)) * (15 / 10))
      \<and> fl (mean (drop (length ?ds div 2) ?ds)) > 1)"
    by (simp only: py_mean_nonempty [OF t] py_mean_nonempty [OF d] then_do_def sum.case)
  also have "\<dots> = Inr (regressed points)"
    using False by (simp add: regressed_def Let_def)
  finally show ?thesis .
qed

lemma identify_performance_regressions_eq:
  assumes "cutoff_date now days_back = Inr cutoff"
  shows "identify_performance_regressions now days_back results =
     Inr (take 10 (filter
       (\<lambda>n. regressed
          (map (\<lambda>r. (timestamp r, duration r))
             (filter (\<lambda>r. name r = n) (filter (\<lambda>r. cutoff \<le> timestamp r) results))))
       (first_seen (map name (filter (\<lambda>r. cutoff \<le> timestamp r) results)))))"
  unfolding identify_performance_regressions_def assms then_do_def Let_def
  by (simp add: select_keys_grouped [of is_regression regressed, OF is_regression_eq])

lemma fl_unit_range:
  assumes "1 \<le> \<bar>x\<bar>" and "\<bar>x\<bar> < 2"
  shows "fl x = of_int (round_half_even (x * 4503599627370496)) / 4503599627370496"
  using fl_eval [of 0 x] assms by simp

lemma fl_half_range:
  assumes "1 / 2 \<le> \<bar>x\<bar>" and "\<bar>x\<bar> < 1"
  shows "fl x = of_int (round_half_even (x * 9007199254740992)) / 9007199254740992"
  using fl_eval [of "- 1" x] assms by simp

lemma fl_decimals:
  "fl (6 / 5) = 5404319552844595 / 4503599627370496"
  "fl (9 / 5) = 8106479329266893 / 4503599627370496"
  "fl (5404319552844595 / 4503599627370496 * (15 / 10))
     = 8106479329266892 / 4503599627370496"
  by (simp_all add: fl_unit_range round_half_even_def)

lemma is_regression_examples:
  "is_regression
     [(4, fl (9 / 10)), (1, 1 / 2), (2, 1 / 2), (3, 1 / 2), (5, fl (9 / 10)), (6, fl (9 / 10))]
     = Inr False"
  "is_regression
     [(4, fl (9 / 5)), (1, 1), (2, 1), (3, 1), (5, fl (9 / 5)), (6, fl (9 / 5))]
     = Inr True"
  "is_regression
     [(1, 1), (2, 1), (3, 1), (4, 1), (5, 2), (6, 1), (7, 2), (8, 2), (9, 2), (10, 2)]
     = Inr True"
  by (simp_all add: is_regression_def py_mean_def fl_unit_range fl_half_range
      round_half_even_def then_do_def Let_def)

lemma count_two:
  assumes "set xs \<subseteq> {a, b}" and "a \<noteq> b"
  shows "count_list xs a + count_list xs b = length xs"
  using assms by (induction xs) auto

lemma two_statuses:
  assumes "card (set xs) = 2"
  shows "least_frequent_count xs = length xs - most_frequent_count xs"
proof -
  from assms obtain a b where ab: "set xs = {a, b}" and ne: "a \<noteq> b"
    by (auto simp: card_2_iff)
  have img: "count_list xs ` set xs = {count_list xs a, count_list xs b}"
    by (simp add: ab)
  have s: "count_list xs a + count_list xs b = length xs"
    using ab ne by (intro count_two) simp_all
  have mn: "least_frequent_count xs = min (count_list xs a) (count_list xs b)"
    by (simp add: least_frequent_count_def img)
  have mx: "most_frequent_count xs = max (count_list xs a) (count_list xs b)"
    by (simp add: most_frequent_count_def img)
  from s show ?thesis unfolding mn mx min_def max_def by auto
qed

lemma flaky_two_statuses:
  "card (set statuses) = 2 \<Longrightarrow> flaky_by_least_frequent statuses = flaky_by_majority statuses"
  by (simp add: flaky_by_least_frequent_def flaky_by_majority_def two_statuses)

lemma cutoff_date_flaky_clock: "cutoff_date 63900000000000001 30 = Inr 63897408000000001"
  by (simp add: cutoff_date_def Let_def MAX_DELTA_DAYS_def DATETIME_MAX_def US_PER_DAY_def)

lemma cutoff_date_regression_clock: "cutoff_date 63900000000000004 30 = Inr 63897408000000004"
  by (simp add: cutoff_date_def Let_def MAX_DELTA_DAYS_def DATETIME_MAX_def US_PER_DAY_def)

lemma identify_flaky_runs_flaky:
  "identify_flaky_tests 63900000000000001 30 runs_flaky = Inr [''test_login'']"
  unfolding identify_flaky_tests_def cutoff_date_flaky_clock
  by (simp add: then_do_def runs_flaky_def run_def group_by_def is_flaky_def counter_def
      Let_def)

lemma identify_flaky_runs_three_statuses: "identify_flaky_tests 63900000000000001 30 runs_three_statuses = Inr []"
  unfolding identify_flaky_tests_def cutoff_date_flaky_clock
  by (simp add: then_do_def runs_three_statuses_def run_def group_by_def is_flaky_def
      counter_def Let_def)

lemma three_statuses_majority: "flaky_by_majority (map status runs_three_statuses)"
  unfolding flaky_by_majority_def most_frequent_count_def card_set
  by (simp add: runs_three_statuses_def run_def)

lemma identify_regressions_runs_durations:
  "identify_performance_regressions 63900000000000004 30 runs_durations = Inr [''test_slow'']"
  unfolding identify_performance_regressions_def cutoff_date_regression_clock
  by (simp add: then_do_def runs_durations_def run_def group_by_def is_regression_def
      py_mean_def fl_unit_range fl_half_range round_half_even_def Let_def)

lemma identify_regressions_runs_boundary:
  "identify_performance_regressions 63900000000000004 30 runs_boundary = Inr [''test_io'']"
  unfolding identify_performance_regressions_def cutoff_date_regression_clock
  by (simp add: then_do_def runs_boundary_def run_def group_by_def is_regression_def
      py_mean_def fl_unit_range round_half_even_def Let_def)

section \<open>Claims about flaky tests\<close>

text \<open>
  Claim C5, as the code has it. With the cutoff of the window defined, the names
  reported as flaky are the first ten, in the order of their first result in the window,
  of the names whose statuses in the window number at least 3, show more than one
  distinct status, and whose least frequent status makes up at least 0.2 of the runs (the
  bound included). With exactly two distinct statuses this share is the share of the
  runs that disagree with the majority outcome. One failure among five runs is flagged,
  one among six is not.
\<close>

theorem flaky_detection:
  "(cutoff_date now days_back = Inr cutoff \<longrightarrow>
      identify_flaky_tests now days_back results =
        Inr (take 10 (filter
          (\<lambda>n. flaky_by_least_frequent
             (map status
                (filter (\<lambda>r. name r = n) (filter (\<lambda>r. cutoff \<le> timestamp r) results))))
          (first_seen (map name (filter (\<lambda>r. cutoff \<le> timestamp r) results))))))
   \<and> (card (set statuses) = 2 \<longrightarrow>
        flaky_by_least_frequent statuses = flaky_by_majority statuses)
   \<and> is_flaky [''passed'', ''failed'', ''passed'', ''passed'', ''passed''] = Inr True
   \<and> is_flaky [''passed'', ''passed'', ''passed'', ''passed'', ''passed'', ''failed'']
       = Inr False"
proof (intro conjI impI)
  assume "cutoff_date now days_back = Inr cutoff"
  then show "identify_flaky_tests now days_back results =
        Inr (take 10 (filter
          (\<lambda>n. flaky_by_least_frequent
             (map status
                (filter (\<lambda>r. name r = n) (filter (\<lambda>r. cutoff \<le> timestamp r) results))))
          (first_seen (map name (filter (\<lambda>r. cutoff \<le> timestamp r) results)))))"
    by (rule identify_flaky_tests_eq)
next
  assume "card (set statuses) = 2"
  then show "flaky_by_least_frequent statuses = flaky_by_majority statuses"
    by (rule flaky_two_statuses)
next
  show "is_flaky [''passed'', ''failed'', ''passed'', ''passed'', ''passed''] = Inr True"
    by (rule is_flaky_examples(1))
  show "is_flaky [''passed'', ''passed'', ''passed'', ''passed'', ''passed'', ''failed'']
       = Inr False"
    by (rule is_flaky_examples(2))
qed

theorem flaky_detection_witness:
  "cutoff_date 63900000000000001 30 = Inr 63897408000000001
   \<and> identify_flaky_tests 63900000000000001 30 runs_flaky = Inr [''test_login'']
   \<and> take 10 (filter
          (\<lambda>n. flaky_by_least_frequent
             (map status
                (filter (\<lambda>r. name r = n)
                   (filter (\<lambda>r. 63897408000000001 \<le> timestamp r) runs_flaky))))
          (first_seen (map name (filter (\<lambda>r. 63897408000000001 \<le> timestamp r) runs_flaky))))
       = [''test_login'']
   \<and> card (set [''passed'', ''failed'', ''passed'']) = 2
   \<and> flaky_by_least_frequent [''passed'', ''failed'', ''passed'']
       = flaky_by_majority [''passed'', ''failed'', ''passed'']"
proof -
  note th = flaky_detection [of 63900000000000001 30 63897408000000001 runs_flaky
      "[''passed'', ''failed'', ''passed'']"]
  note c = cutoff_date_flaky_clock
  note e = identify_flaky_runs_flaky
  from th [THEN conjunct1, THEN mp, OF c] e
  have t: "take 10 (filter
          (\<lambda>n. flaky_by_least_frequent
             (map status
                (filter (\<lambda>r. name r = n)
                   (filter (\<lambda>r. 63897408000000001 \<le> timestamp r) runs_flaky))))
          (first_seen (map name (filter (\<lambda>r. 63897408000000001 \<le> timestamp r) runs_flaky))))
       = [''test_login'']"
    by simp
  have k: "card (set [''passed'', ''failed'', ''passed'']) = 2"
    unfolding card_set by simp
  note q = th [THEN conjunct2, THEN conjunct1, THEN mp, OF k]
  from c e t k q show ?thesis by (intro conjI)
qed

text \<open>
  The reading of claim C5 fails with three statuses: of six runs, three passed, two
  failed and one broke, so half of them disagree with the majority outcome, but the
  least frequent status has one run in six and the test is not reported.
\<close>

theorem flaky_three_statuses_counterexample:
  "flaky_by_majority (map status runs_three_statuses)
   \<and> map name runs_three_statuses
       = [''test_sync'', ''test_sync'', ''test_sync'', ''test_sync'', ''test_sync'',
          ''test_sync'']
   \<and> identify_flaky_tests 63900000000000001 30 runs_three_statuses = Inr []"
proof -
  have n: "map name runs_three_statuses
       = [''test_sync'', ''test_sync'', ''test_sync'', ''test_sync'', ''test_sync'',
          ''test_sync'']"
    by (simp add: runs_three_statuses_def run_def)
  from three_statuses_majority n identify_flaky_runs_three_statuses show ?thesis
    by (intro conjI)
qed

section \<open>Claims about performance regressions\<close>

text \<open>
  Claim C6, as the code has it. With the cutoff of the window defined, the names
  reported as performance regressions are the first ten, in the order of their first
  result in the window, of the names with at least five \<open>(timestamp, duration)\<close> points
  in the window whose durations, sorted by timestamp and split at the midpoint, have a
  recent mean above 1.5 times the early mean and above one second, where each mean is
  the double nearest to the exact mean and the product the double nearest to the exact
  product. Six points with the means 0.5 and 0.9 are not flagged, six points with the
  means 1.0 and 1.8 are; ten points with the exact means 1.2 and 1.8 are flagged, because
  the product of the doubles 1.2 and 1.5 is rounded to a double below the double 1.8.
\<close>

theorem regression_detection:
  "(cutoff_date now days_back = Inr cutoff \<longrightarrow>
      identify_performance_regressions now days_back results =
        Inr (take 10 (filter
          (\<lambda>n. regressed
             (map (\<lambda>r. (timestamp r, duration r))
                (filter (\<lambda>r. name r = n) (filter (\<lambda>r. cutoff \<le> timestamp r) results))))
          (first_seen (map name (filter (\<lambda>r. cutoff \<le> timestamp r) results))))))
   \<and> is_regression
        [(4, fl (9 / 10)), (1, 1 / 2), (2, 1 / 2), (3, 1 / 2), (5, fl (9 / 10)),
         (6, fl (9 / 10))] = Inr False
   \<and> is_regression
        [(4, fl (9 / 5)), (1, 1), (2, 1), (3, 1), (5, fl (9 / 5)), (6, fl (9 / 5))]
       = Inr True
   \<and> is_regression
        [(1, 1), (2, 1), (3, 1), (4, 1), (5, 2), (6, 1), (7, 2), (8, 2), (9, 2), (10, 2)]
       = Inr True"
proof (intro conjI impI)
  assume "cutoff_date now days_back = Inr cutoff"
  then show "identify_performance_regressions now days_back results =
        Inr (take 10 (filter
          (\<lambda>n. regressed
             (map (\<lambda>r. (timestamp r, duration r))
                (filter (\<lambda>r. name r = n) (filter (\<lambda>r. cutoff \<le> timestamp r) results))))
          (first_seen (map name (filter (\<lambda>r. cutoff \<le> timestamp r) results)))))"
    by (rule identify_performance_regressions_eq)
next
  show "is_regression
        [(4, fl (9 / 10)), (1, 1 / 2), (2, 1 / 2), (3, 1 / 2), (5, fl (9 / 10)),
         (6, fl (9 / 10))] = Inr False"
    by (rule is_regression_examples(1))
  show "is_regression
        [(4, fl (9 / 5)), (1, 1), (2, 1), (3, 1), (5, fl (9 / 5)), (6, fl (9 / 5))]
       = Inr True"
    by (rule is_regression_examples(2))
  show "is_regression
        [(1, 1), (2, 1), (3, 1), (4, 1), (5, 2), (6, 1), (7, 2), (8, 2), (9, 2), (10, 2)]
       = Inr True"
    by (rule is_regression_examples(3))
qed

theorem regression_detection_witness:
  "cutoff_date 63900000000000004 30 = Inr 63897408000000004
   \<and> identify_performance_regressions 63900000000000004 30 runs_durations
       = Inr [''test_slow'']
   \<and> take 10 (filter
          (\<lambda>n. regressed
             (map (\<lambda>r. (timestamp r, duration r))
                (filter (\<lambda>r. name r = n)
                   (filter (\<lambda>r. 63897408000000004 \<le> timestamp r) runs_durations))))
          (first_seen
             (map name (filter (\<lambda>r. 63897408000000004 \<le> timestamp r) runs_durations))))
       = [''test_slow'']"
proof -
  note th = regression_detection [of 63900000000000004 30 63897408000000004 runs_durations]
  note c = cutoff_date_regression_clock
  note e = identify_regressions_runs_durations
  from th [THEN conjunct1, THEN mp, OF c] e
  have t: "take 10 (filter
          (\<lambda>n. regressed
             (map (\<lambda>r. (timestamp r, duration r))
                (filter (\<lambda>r. name r = n)
                   (filter (\<lambda>r. 63897408000000004 \<le> timestamp r) runs_durations))))
          (first_seen
             (map name (filter (\<lambda>r. 63897408000000004 \<le> timestamp r) runs_durations))))
       = [''test_slow'']"
    by simp
  from c e t show ?thesis by (intro conjI)
qed

text \<open>
  The test of claim C6 on the exact means fails at the boundary: the ten runs of
  \<open>runs_boundary\<close> have the exact early mean 1.2 and the exact recent mean 1.8, which
  does not exceed 1.5 times 1.2, and the test is reported.
\<close>

theorem rounded_boundary_counterexample:
  "map name runs_boundary
     = [''test_io'', ''test_io'', ''test_io'', ''test_io'', ''test_io'', ''test_io'',
        ''test_io'', ''test_io'', ''test_io'', ''test_io'']
   \<and> map duration runs_boundary = [1, 1, 1, 1, 2, 1, 2, 2, 2, 2]
   \<and> mean [1, 1, 1, 1, 2] = 6 / 5 \<and> mean [1, 2, 2, 2, 2] = 9 / 5
   \<and> \<not> regressed_exact (map (\<lambda>r. (timestamp r, duration r)) runs_boundary)
   \<and> fl (fl (6 / 5) * (15 / 10)) < fl (9 / 5)
   \<and> identify_performance_regressions 63900000000000004 30 runs_boundary
       = Inr [''test_io'']"
proof -
  have n: "map name runs_boundary
     = [''test_io'', ''test_io'', ''test_io'', ''test_io'', ''test_io'', ''test_io'',
        ''test_io'', ''test_io'', ''test_io'', ''test_io'']"
    and d: "map duration runs_boundary = [1, 1, 1, 1, 2, 1, 2, 2, 2, 2]"
    by (simp_all add: runs_boundary_def run_def)
  have m: "mean [1, 1, 1, 1, 2] = 6 / 5" "mean [1, 2, 2, 2, 2] = 9 / 5"
    by (simp_all add: mean_def)
  have x: "\<not> regressed_exact (map (\<lambda>r. (timestamp r, duration r)) runs_boundary)"
    by (simp add: regressed_exact_def runs_boundary_def run_def mean_def Let_def)
  have y: "fl (fl (6 / 5) * (15 / 10)) < fl (9 / 5)"
    unfolding fl_decimals by simp
  from n d m x y identify_regressions_runs_boundary show ?thesis
    by (intro conjI)
qed

section \<open>Claims about the order of the build summaries\<close>

lemma load_build_summaries_sorted:
  "sorted (map bs_timestamp (build_summaries (load_build_summaries self)))"
  by (simp add: load_build_summaries_def)

lemma parse_history_data_appends:
  "\<exists>new. build_summaries (parse_history_data fromtimestamp now history_data self)
     = build_summaries self @ new"
  by (simp add: parse_history_data_def)

lemma parse_history_earlier:
  "parse_history_entry ''auto'' utc_fromtimestamp 0 history_earlier =
     Some \<lparr>bs_build_number = ''7'', bs_timestamp = 63825596800000000, bs_branch = ''unknown'',
          bs_framework = ''auto'', total_tests = 5, passed_tests = 5, failed_tests = 0,
          skipped_tests = 0, broken_tests = 0, bs_duration = 2, pass_rate = 100\<rparr>"
  by (simp add: parse_history_entry_def history_earlier_def get_or_def nested_get_def
      Let_def utc_fromtimestamp_def valid_datetime_def DATETIME_MAX_def US_PER_DAY_def)

lemma load_results_no_status:
  "load_results_from_directory utc_fromtimestamp 0 [raw_no_status]
     \<lparr>project_name = ''demo'', self_framework = ''auto'', test_results = [],
      build_summaries = []\<rparr>
   = \<lparr>project_name = ''demo'', self_framework = ''auto'', test_results = results_no_status,
       build_summaries = [summary_no_status]\<rparr>"
proof -
  have "List.map_filter (parse_test_result ''auto'' utc_fromtimestamp 0) [raw_no_status]
      = results_no_status"
    by (simp only: results_no_status_def)
  then show ?thesis
    by (simp add: load_results_from_directory_def load_build_summaries_def
        aggregate_results_no_status del: List.map_filter_simps)
qed

text \<open>
  Claim C8 on the code. The aggregator sorts the collection, but the history importer
  appends after it without sorting: after the loading steps of \<open>main()\<close> on one result of
  14 November 2023 and one history entry of 22 July 2023 the collection holds the later
  build before the earlier one.
\<close>

theorem history_import_breaks_order:
  "map bs_timestamp (build_summaries
      (main_load utc_fromtimestamp 0 ''demo'' ''auto'' [raw_no_status] [history_earlier]))
     = [63835596800000000, 63825596800000000]
   \<and> \<not> sorted (map bs_timestamp (build_summaries
      (main_load utc_fromtimestamp 0 ''demo'' ''auto'' [raw_no_status] [history_earlier])))"
proof -
  have "map bs_timestamp (build_summaries
      (main_load utc_fromtimestamp 0 ''demo'' ''auto'' [raw_no_status] [history_earlier]))
     = [63835596800000000, 63825596800000000]"
    unfolding main_load_def load_results_no_status
    by (simp add: parse_history_data_def parse_history_earlier summary_no_status_def)
  then show ?thesis by simp
qed

end
